theory Spec2Isabelle
  imports Complex_Main
begin

section \<open>Numbers, vectors and matrices\<close>

text \<open>
  JavaScript numbers are modelled as real numbers: rounding is abstracted away, and a
  computation whose JavaScript result is not a finite number (\<open>Infinity\<close>, \<open>NaN\<close>) or is
  \<open>undefined\<close> is the value \<open>None\<close>. An object that would hold such a value in a numeric
  field is outside the model, so the functions that can produce one return an option.
\<close>

type_synonym vec3 = "real \<times> real \<times> real"

datatype vec4 = Vec4 real real real real

datatype mat4 = Mat4 (col0: vec4) (col1: vec4) (col2: vec4) (col3: vec4)

text \<open>
  A \<open>mat4\<close> is the library's array of 16 numbers in column-major order, grouped into its
  four columns: \<open>Mat4 c0 c1 c2 c3\<close> holds \<open>out[0..3]\<close>, \<open>out[4..7]\<close>, \<open>out[8..11]\<close> and
  \<open>out[12..15]\<close>.
\<close>

fun vadd :: "vec4 \<Rightarrow> vec4 \<Rightarrow> vec4" where
  "vadd (Vec4 a b c d) (Vec4 e f g h) = Vec4 (a + e) (b + f) (c + g) (d + h)"

fun vscale :: "real \<Rightarrow> vec4 \<Rightarrow> vec4" where
  "vscale k (Vec4 a b c d) = Vec4 (k * a) (k * b) (k * c) (k * d)"

definition lin3 :: "real \<Rightarrow> vec4 \<Rightarrow> real \<Rightarrow> vec4 \<Rightarrow> real \<Rightarrow> vec4 \<Rightarrow> vec4" where
  "lin3 x c0 y c1 z c2 = vadd (vadd (vscale x c0) (vscale y c1)) (vscale z c2)"

text \<open>
  Modelled from the spec: the threshold of the library below which the length of an axis
  counts as zero.
\<close>
definition GLMAT_EPSILON :: real where
  "GLMAT_EPSILON = 0.000001"

text \<open>
  Modelled from the spec: the linear-algebra library (glMatrix 2.2.1, loaded from
  \<open>js/lib\<close>) is not among the sources. The spec treats it as a given primitive that
  builds 4x4 affine transforms by composing rotations and translations; \<open>mat4.create()\<close> is the
  identity transform.
\<close>
definition mat4_create :: mat4 where
  "mat4_create = Mat4 (Vec4 1 0 0 0) (Vec4 0 1 0 0) (Vec4 0 0 1 0) (Vec4 0 0 0 1)"

text \<open>
  Modelled from the spec: \<open>mat4.translate(out, a, v)\<close> with \<open>out = a\<close> composes the
  translation by \<open>v\<close> onto \<open>a\<close> on the right: only the last column changes, to
  \<open>a[0..3] * x + a[4..7] * y + a[8..11] * z + a[12..15]\<close>.
\<close>
fun mat4_translate :: "mat4 \<Rightarrow> vec3 \<Rightarrow> mat4" where
  "mat4_translate (Mat4 c0 c1 c2 c3) (x, y, z) = Mat4 c0 c1 c2 (vadd (lin3 x c0 y c1 z c2) c3)"

text \<open>
  Modelled from the spec: \<open>mat4.rotate(out, a, rad, axis)\<close> with \<open>out = a\<close> composes the
  rotation by \<open>rad\<close> radians about \<open>axis\<close> onto \<open>a\<close> on the right. The library scales the
  axis to unit length first, and leaves \<open>a\<close> as it is (returning null) when the axis is
  shorter than its epsilon.
\<close>
fun mat4_rotate :: "mat4 \<Rightarrow> real \<Rightarrow> vec3 \<Rightarrow> mat4" where
  "mat4_rotate (Mat4 c0 c1 c2 c3) rad (ax, ay, az) =
     (let len = sqrt (ax * ax + ay * ay + az * az) in
      if \<bar>len\<bar> < GLMAT_EPSILON then Mat4 c0 c1 c2 c3
      else
        let x = ax * (1 / len); y = ay * (1 / len); z = az * (1 / len);
            s = sin rad; c = cos rad; t = 1 - c;
            b00 = x * x * t + c; b01 = y * x * t + z * s; b02 = z * x * t - y * s;
            b10 = x * y * t - z * s; b11 = y * y * t + c; b12 = z * y * t + x * s;
            b20 = x * z * t + y * s; b21 = y * z * t - x * s; b22 = z * z * t + c
        in Mat4 (lin3 b00 c0 b01 c1 b02 c2) (lin3 b10 c0 b11 c1 b12 c2)
                (lin3 b20 c0 b21 c1 b22 c2) c3)"

text \<open>
  Modelled from the spec: \<open>mat4.multiply(out, a, b)\<close> is the matrix product \<open>a * b\<close>: each
  column of the result is \<open>a\<close> applied to the matching column of \<open>b\<close>.
\<close>
fun transform :: "mat4 \<Rightarrow> vec4 \<Rightarrow> vec4" where
  "transform (Mat4 c0 c1 c2 c3) (Vec4 x y z w) = vadd (lin3 x c0 y c1 z c2) (vscale w c3)"

fun mat4_multiply :: "mat4 \<Rightarrow> mat4 \<Rightarrow> mat4" where
  "mat4_multiply a (Mat4 b0 b1 b2 b3) =
     Mat4 (transform a b0) (transform a b1) (transform a b2) (transform a b3)"

definition worldY :: vec3 where
  "worldY = (0, 1, 0)"

text \<open>The world position of a transform: the transform applied to the point (0,0,0,1).\<close>
definition position :: "mat4 \<Rightarrow> vec4" where
  "position m = transform m (Vec4 0 0 0 1)"

section \<open>The astronomical object\<close>

text \<open>
  The fields of \<open>AstronomicalObject\<close> that construction and animation read or write. The
  texture, lighting and buffer fields belong to rendering and are left out. \<open>orbits\<close> keeps
  the reference to the orbited object as its index in the registry (\<open>None\<close> for
  \<open>false\<close>); the methods receive the object it refers to as the argument \<open>orbited\<close>, in
  its state at the time of the call (\<open>None\<close> when \<open>this.orbits\<close> is false).
\<close>

record body =
  name :: string
  orbits :: "nat option"
  orbitDistance :: real
  orbitalPeriod :: real
  spinPeriod :: real
  radius :: real
  spins :: bool
  spinsClockwise :: bool
  axis :: real
  axisArray :: vec3
  distanceFromBodyWeAreOrbiting :: real
  origin :: vec3
  lastSpinAngle :: real
  lastOrbitAngle :: real
  cumulativeOrbitAngle :: real
  modelViewMatrix :: mat4
  isNotFirstAnimationFrame :: bool

text \<open>The config object: an omitted property is \<open>None\<close>.\<close>

record config =
  config_name :: "string option"
  config_orbits :: "nat option"
  config_origin :: "vec3 option"
  config_orbitDistance :: "real option"
  config_orbitalPeriod :: "real option"
  config_spinPeriod :: "real option"
  config_radius :: "real option"
  config_axis :: "real option"
  config_spins :: "bool option"
  config_spinsClockwise :: "bool option"

text \<open>\<open>x || d\<close> on a number: \<open>undefined\<close> and \<open>0\<close> are falsy.\<close>
definition num_or :: "real option \<Rightarrow> real \<Rightarrow> real" where
  "num_or x d = (case x of None \<Rightarrow> d | Some v \<Rightarrow> if v = 0 then d else v)"

text \<open>\<open>x || d\<close> on a string: \<open>undefined\<close> and the empty string are falsy.\<close>
definition str_or :: "string option \<Rightarrow> string \<Rightarrow> string" where
  "str_or x d = (case x of None \<Rightarrow> d | Some v \<Rightarrow> if v = [] then d else v)"

definition getBoolean :: "bool option \<Rightarrow> bool \<Rightarrow> bool" where
  "getBoolean attribute defaultValue =
     (case attribute of None \<Rightarrow> defaultValue | Some v \<Rightarrow> v)"

definition degreesToRadians :: "real \<Rightarrow> real" where
  "degreesToRadians celsius = celsius * (pi / 180)"

definition saturnsRingsName :: string where
  "saturnsRingsName = ''Saturn's Rings''"

text \<open>The object before the constructor has assigned anything.\<close>
definition blank :: body where
  "blank = \<lparr> name = [], orbits = None, orbitDistance = 0, orbitalPeriod = 0, spinPeriod = 0,
     radius = 0, spins = False, spinsClockwise = False, axis = 0, axisArray = (0, 0, 0),
     distanceFromBodyWeAreOrbiting = 0, origin = (0, 0, 0), lastSpinAngle = 0,
     lastOrbitAngle = 0, cumulativeOrbitAngle = 0, modelViewMatrix = mat4_create,
     isNotFirstAnimationFrame = False \<rparr>"

definition setAxis :: "real option \<Rightarrow> body \<Rightarrow> body" where
  "setAxis a b =
     (let a' = num_or a 0;
          ax = degreesToRadians a'
      in b\<lparr> axis := ax,
            axisArray := (ax / degreesToRadians 90, 1 - (ax / degreesToRadians 90), 0) \<rparr>)"

definition normalise :: "body \<Rightarrow> body" where
  "normalise b = b\<lparr> orbitDistance := orbitDistance b / 50000, radius := radius b / 100 \<rparr>"

text \<open>
  For the rings the periods are read from the orbited object; with no orbited object
  they would be \<open>undefined\<close>, which is \<open>None\<close> here.
\<close>
definition prepareSpecialCases :: "body option \<Rightarrow> body \<Rightarrow> body option" where
  "prepareSpecialCases orbited b =
     (let b1 = b\<lparr> distanceFromBodyWeAreOrbiting := 0 \<rparr>;
          b2 = (case orbited of
                  None \<Rightarrow> b1
                | Some p \<Rightarrow> b1\<lparr> distanceFromBodyWeAreOrbiting :=
                                  radius b1 + orbitDistance b1 + radius p \<rparr>)
      in if name b2 = ''Sun'' then Some (b2\<lparr> radius := radius b2 / 10 \<rparr>)
         else if name b2 = saturnsRingsName then
           (case orbited of
              None \<Rightarrow> None
            | Some p \<Rightarrow> Some (b2\<lparr> distanceFromBodyWeAreOrbiting := 0,
                                  orbitalPeriod := orbitalPeriod p,
                                  spinPeriod := spinPeriod p \<rparr>))
         else Some b2)"

definition setAttributes :: "config \<Rightarrow> body option \<Rightarrow> body \<Rightarrow> body option" where
  "setAttributes cfg orbited b =
     prepareSpecialCases orbited
       (normalise
         (setAxis (config_axis cfg)
           (b\<lparr> name := str_or (config_name cfg) ''name not set'',
                orbits := config_orbits cfg,
                orbitDistance := num_or (config_orbitDistance cfg) 0,
                orbitalPeriod := num_or (config_orbitalPeriod cfg) 1,
                spinPeriod := num_or (config_spinPeriod cfg) 1,
                radius := num_or (config_radius cfg) 10,
                spins := getBoolean (config_spins cfg) True,
                spinsClockwise := getBoolean (config_spinsClockwise cfg) False \<rparr>)))"

definition setOrigin :: "vec3 option \<Rightarrow> body option \<Rightarrow> body \<Rightarrow> body" where
  "setOrigin orig orbited b =
     (case orig of
        Some v \<Rightarrow> b\<lparr> origin := v \<rparr>
      | None \<Rightarrow>
          (case orbited of
             Some p \<Rightarrow>
               (case origin p of (px, py, pz) \<Rightarrow>
                  b\<lparr> origin := (px, py, pz - distanceFromBodyWeAreOrbiting b) \<rparr>)
           | None \<Rightarrow> b\<lparr> origin := (0, 0, 0) \<rparr>))"

text \<open>
  \<open>u\<close> is the value \<open>Math.random()\<close> returns, a number in [0, 1); it is read only by an
  orbiting object that is not the rings. At \<open>u = 0\<close> the starting angle would be infinite.
\<close>
definition setRandomStartingOrbit :: "real \<Rightarrow> body option \<Rightarrow> body \<Rightarrow> body option" where
  "setRandomStartingOrbit u orbited b =
     (let b0 = b\<lparr> lastSpinAngle := 0, lastOrbitAngle := 0, cumulativeOrbitAngle := 0 \<rparr>
      in if name b0 = saturnsRingsName then
           (let saturnsRingsAngle = degreesToRadians 90
            in Some (b0\<lparr> lastOrbitAngle := saturnsRingsAngle,
                          cumulativeOrbitAngle := saturnsRingsAngle \<rparr>))
         else if orbited \<noteq> None then
           (if u = 0 then None
            else
              let r0 = (pi * 2) / u;
                  randomStartingOrbit = (if spinsClockwise b0 then r0 * (-1) else r0)
              in Some (b0\<lparr> lastOrbitAngle := randomStartingOrbit,
                            cumulativeOrbitAngle := randomStartingOrbit \<rparr>))
         else Some b0)"

definition initMatrix :: "body option \<Rightarrow> body \<Rightarrow> body" where
  "initMatrix orbited b =
     (let m0 = mat4_create;
          m1 = (case orbited of
                  None \<Rightarrow> m0
                | Some p \<Rightarrow>
                    if orbits p \<noteq> None
                    then mat4_translate (mat4_rotate m0 (lastOrbitAngle p) worldY) (origin p)
                    else m0);
          m2 = mat4_rotate m1 (lastOrbitAngle b) worldY;
          m3 = mat4_translate m2 (0, 0, - distanceFromBodyWeAreOrbiting b)
      in b\<lparr> modelViewMatrix := m3 \<rparr>)"

text \<open>The constructor: \<open>new AstronomicalObject(config)\<close>.\<close>
definition AstronomicalObject :: "config \<Rightarrow> body option \<Rightarrow> real \<Rightarrow> body option" where
  "AstronomicalObject cfg orbited u =
     (case setAttributes cfg orbited blank of
        None \<Rightarrow> None
      | Some b1 \<Rightarrow>
          (case setRandomStartingOrbit u orbited (setOrigin (config_origin cfg) orbited b1) of
             None \<Rightarrow> None
           | Some b3 \<Rightarrow> Some (initMatrix orbited b3)))"

subsection \<open>Animation\<close>

text \<open>A zero divisor makes the JavaScript quotient infinite or \<open>NaN\<close>: \<open>None\<close>.\<close>
definition calculatePortionOf :: "real \<Rightarrow> real \<Rightarrow> real \<Rightarrow> real option" where
  "calculatePortionOf attribute millisecondsSinceLastFrame millisecondsPerDay =
     (if millisecondsPerDay * attribute = 0 then None
      else
        let proportion = millisecondsSinceLastFrame / (millisecondsPerDay * attribute);
            proportionInRadians = (pi * 2) * proportion
        in Some proportionInRadians)"

definition beforeOrbit :: "body \<Rightarrow> mat4 \<Rightarrow> mat4" where
  "beforeOrbit b translationMatrix =
     (if isNotFirstAnimationFrame b then
        let angle = (if spinsClockwise b then lastSpinAngle b else - lastSpinAngle b)
        in mat4_rotate (mat4_rotate translationMatrix angle worldY) (- 1) (axisArray b)
      else translationMatrix)"

definition afterOrbit :: "real \<Rightarrow> body \<Rightarrow> body" where
  "afterOrbit spinAmount b =
     (let angle = (if spinsClockwise b then - lastSpinAngle b - spinAmount
                   else lastSpinAngle b + spinAmount)
      in b\<lparr> modelViewMatrix := mat4_rotate (mat4_rotate (modelViewMatrix b) 1 (axisArray b)) angle worldY,
            isNotFirstAnimationFrame := True \<rparr>)"

definition updateAttributes :: "real \<Rightarrow> real \<Rightarrow> body \<Rightarrow> body" where
  "updateAttributes orbitAmount spinAmount b =
     (let b1 = b\<lparr> lastOrbitAngle := orbitAmount \<rparr>;
          b2 = b1\<lparr> cumulativeOrbitAngle := cumulativeOrbitAngle b1 + lastOrbitAngle b1 \<rparr>
      in b2\<lparr> lastSpinAngle := lastSpinAngle b2 + spinAmount \<rparr>)"

text \<open>
  The value of the local \<open>translationMatrix\<close> of \<open>animate\<close> when it is multiplied into the
  model-view matrix, for an object orbiting \<open>p\<close>.
\<close>
definition orbitMatrix :: "body \<Rightarrow> body \<Rightarrow> real \<Rightarrow> mat4" where
  "orbitMatrix p b orbitAmount =
     (let m0 = beforeOrbit b mat4_create;
          d = distanceFromBodyWeAreOrbiting b
      in if orbits p = None then
           (let m1 = mat4_translate m0 (0, 0, d);
                m2 = mat4_rotate m1 orbitAmount worldY
            in mat4_translate m2 (0, 0, - d))
         else
           (let m1 = mat4_translate m0 (0, 0, d);
                m2 = mat4_rotate m1 (- cumulativeOrbitAngle b) worldY;
                m3 = mat4_translate m2 (0, 0, distanceFromBodyWeAreOrbiting p);
                m4 = mat4_rotate m3 (lastOrbitAngle p) worldY;
                m5 = mat4_translate m4 (0, 0, - distanceFromBodyWeAreOrbiting p);
                m6 = mat4_rotate m5 (cumulativeOrbitAngle b + orbitAmount) worldY
            in mat4_translate m6 (0, 0, - d)))"

text \<open>The body of \<open>animate\<close> once the two angle amounts are computed.\<close>
definition animateBy :: "body option \<Rightarrow> real \<Rightarrow> real \<Rightarrow> body \<Rightarrow> body" where
  "animateBy orbited orbitAmount spinAmount b =
     updateAttributes orbitAmount spinAmount
       (case orbited of
          Some p \<Rightarrow>
            afterOrbit spinAmount
              (b\<lparr> modelViewMatrix := mat4_multiply (modelViewMatrix b) (orbitMatrix p b orbitAmount) \<rparr>)
        | None \<Rightarrow>
            if spins b then b\<lparr> modelViewMatrix := mat4_rotate (modelViewMatrix b) spinAmount worldY \<rparr>
            else b)"

definition animate :: "body option \<Rightarrow> real \<Rightarrow> real \<Rightarrow> body \<Rightarrow> body option" where
  "animate orbited millisecondsPerDay millisecondsSinceLastFrame b =
     (case calculatePortionOf (orbitalPeriod b) millisecondsSinceLastFrame millisecondsPerDay of
        None \<Rightarrow> None
      | Some orbitAmount \<Rightarrow>
          (case calculatePortionOf (spinPeriod b) millisecondsSinceLastFrame millisecondsPerDay of
             None \<Rightarrow> None
           | Some spinAmount \<Rightarrow> Some (animateBy orbited orbitAmount spinAmount b)))"

text \<open>
  A run of \<open>animate\<close> calls on one object. Each call comes with the state the orbited
  object is in at that call, the milliseconds per day and the milliseconds since the
  last frame.
\<close>
fun animateCalls :: "(body option \<times> real \<times> real) list \<Rightarrow> body \<Rightarrow> body option" where
  "animateCalls [] b = Some b"
| "animateCalls ((orbited, millisecondsPerDay, millisecondsSinceLastFrame) # calls) b =
     (case animate orbited millisecondsPerDay millisecondsSinceLastFrame b of
        None \<Rightarrow> None
      | Some b' \<Rightarrow> animateCalls calls b')"

text \<open>
  The states an object can be in: built by the constructor, with no orbited object or
  with one that is itself such a state, and then animated any number of times.
\<close>
inductive reachable :: "body \<Rightarrow> bool" where
  new_root: "AstronomicalObject cfg None u = Some b \<Longrightarrow> reachable b"
| new_orbiting: "reachable p \<Longrightarrow> AstronomicalObject cfg (Some p) u = Some b \<Longrightarrow> reachable b"
| animate_root: "reachable b \<Longrightarrow> animate None r t b = Some b' \<Longrightarrow> reachable b'"
| animate_orbiting:
    "reachable b \<Longrightarrow> reachable p \<Longrightarrow> animate (Some p) r t b = Some b' \<Longrightarrow> reachable b'"

section \<open>The application's frame driver\<close>

text \<open>
  The state of \<open>app.js\<close>: \<open>timeLastFrame\<close> is \<open>false\<close> (\<open>None\<close>) or the clock value of the
  last animated frame, and \<open>SolarSystem\<close> is the registry of objects, which refer to each
  other by index. Drawing reads the objects and changes none, so it is left out.
\<close>

record app =
  timeLastFrame :: "int option"
  SolarSystem :: "body list"

text \<open>\<open>now\<close> is the value of \<open>Date.now()\<close>; \<open>!timeLastFrame\<close> holds for \<open>false\<close> and for 0.\<close>
definition millisecondsSinceLastFrame :: "int \<Rightarrow> app \<Rightarrow> int \<times> app" where
  "millisecondsSinceLastFrame now a =
     (let timeThisFrame = now;
          last = (case timeLastFrame a of
                    None \<Rightarrow> timeThisFrame
                  | Some v \<Rightarrow> if v = 0 then timeThisFrame else v);
          elapsed = timeThisFrame - last
      in (elapsed, a\<lparr> timeLastFrame := Some timeThisFrame \<rparr>))"

text \<open>
  The object a reference points to. Every reference of the program is an index inside
  the registry; an index outside it reads as no object.
\<close>
definition orbitedOf :: "body list \<Rightarrow> body \<Rightarrow> body option" where
  "orbitedOf ss b =
     (case orbits b of
        None \<Rightarrow> None
      | Some j \<Rightarrow> if j < length ss then Some (ss ! j) else None)"

text \<open>The loop of the application's \<open>animate\<close> over the registry indices.\<close>
fun animateEach :: "nat list \<Rightarrow> real \<Rightarrow> real \<Rightarrow> body list \<Rightarrow> body list option" where
  "animateEach [] millisecondsPerDay deltaT ss = Some ss"
| "animateEach (i # is) millisecondsPerDay deltaT ss =
     (case animate (orbitedOf ss (ss ! i)) millisecondsPerDay deltaT (ss ! i) of
        None \<Rightarrow> None
      | Some b' \<Rightarrow> animateEach is millisecondsPerDay deltaT (ss[i := b']))"

definition App_animate :: "real \<Rightarrow> int \<Rightarrow> app \<Rightarrow> app option" where
  "App_animate millisecondsPerDay now a =
     (case millisecondsSinceLastFrame now a of
        (deltaT, a1) \<Rightarrow>
          (case animateEach [0..<length (SolarSystem a1)] millisecondsPerDay
                  (real_of_int deltaT) (SolarSystem a1) of
             None \<Rightarrow> None
           | Some ss \<Rightarrow> Some (a1\<lparr> SolarSystem := ss \<rparr>)))"

text \<open>
  One call of \<open>run\<close>: \<open>paused\<close> is what \<open>controls.paused()\<close> returns, \<open>millisecondsPerDay\<close>
  what \<open>controls.millisecondsPerDay()\<close> returns.
\<close>
definition run :: "bool \<Rightarrow> real \<Rightarrow> int \<Rightarrow> app \<Rightarrow> app option" where
  "run paused millisecondsPerDay now a =
     (if paused then Some (a\<lparr> timeLastFrame := None \<rparr>)
      else App_animate millisecondsPerDay now a)"

fun runs :: "(bool \<times> real \<times> int) list \<Rightarrow> app \<Rightarrow> app option" where
  "runs [] a = Some a"
| "runs ((paused, millisecondsPerDay, now) # frames) a =
     (case run paused millisecondsPerDay now a of
        None \<Rightarrow> None
      | Some a' \<Rightarrow> runs frames a')"

text \<open>
  The registry from its second frame on: every orbiting object refers to an object that
  comes before it in the registry, as in \<open>solar_system.js\<close>, and has been animated at
  least once.
\<close>
definition pastFirstFrame :: "body list \<Rightarrow> bool" where
  "pastFirstFrame ss =
     (\<forall>i<length ss.
        case orbits (ss ! i) of
          None \<Rightarrow> True
        | Some j \<Rightarrow> j < i \<and> isNotFirstAnimationFrame (ss ! i))"

section \<open>The statements of the specification\<close>

text \<open>
  The seven-step composition of the specification, applied to a transform \<open>m\<close>, for an
  object \<open>b\<close> orbiting \<open>p\<close> and this frame's orbit delta.
\<close>
definition sevenSteps :: "body \<Rightarrow> body \<Rightarrow> real \<Rightarrow> mat4 \<Rightarrow> mat4" where
  "sevenSteps p b orbitDelta m =
     mat4_translate
       (mat4_rotate
         (mat4_translate
           (mat4_rotate
             (mat4_translate
               (mat4_rotate
                 (mat4_translate m (0, 0, distanceFromBodyWeAreOrbiting b))
                 (- cumulativeOrbitAngle b) worldY)
               (0, 0, distanceFromBodyWeAreOrbiting p))
             (lastOrbitAngle p) worldY)
           (0, 0, - distanceFromBodyWeAreOrbiting p))
         (cumulativeOrbitAngle b + orbitDelta) worldY)
       (0, 0, - distanceFromBodyWeAreOrbiting b)"

text \<open>The un-spin transform of a frame: the identity on an object's first frame.\<close>
definition unspin :: "body \<Rightarrow> mat4" where
  "unspin b = beforeOrbit b mat4_create"

text \<open>A point rotated about the world Y axis by \<open>a\<close> radians.\<close>
fun rotateY :: "real \<Rightarrow> vec4 \<Rightarrow> vec4" where
  "rotateY a (Vec4 x y z w) = Vec4 (cos a * x + sin a * z) y (cos a * z - sin a * x) w"

text \<open>The orbital offset of an object from the object it orbits, before any rotation.\<close>
definition orbitalOffset :: "body \<Rightarrow> vec4" where
  "orbitalOffset b = Vec4 0 0 (- distanceFromBodyWeAreOrbiting b) 0"

section \<open>Objects of the solar system\<close>

definition noConfig :: config where
  "noConfig = \<lparr> config_name = None, config_orbits = None, config_origin = None,
     config_orbitDistance = None, config_orbitalPeriod = None, config_spinPeriod = None,
     config_radius = None, config_axis = None, config_spins = None,
     config_spinsClockwise = None \<rparr>"

definition galaxy_config :: config where
  "galaxy_config = noConfig\<lparr> config_name := Some ''Galaxy'', config_origin := Some (0, 0, 0),
     config_radius := Some 6000000, config_spins := Some False \<rparr>"

definition theSun_config :: config where
  "theSun_config = noConfig\<lparr> config_name := Some ''Sun'', config_origin := Some (0, 0, 0),
     config_spinPeriod := Some 29, config_radius := Some 432500, config_axis := Some 7.25 \<rparr>"

definition earth_config :: config where
  "earth_config = noConfig\<lparr> config_name := Some ''Earth'', config_orbits := Some 1,
     config_orbitDistance := Some 93000000, config_orbitalPeriod := Some 365.25,
     config_spinPeriod := Some 1, config_radius := Some 3959, config_axis := Some 23.45 \<rparr>"

definition earthsMoon_config :: config where
  "earthsMoon_config = noConfig\<lparr> config_name := Some ''Earth's Moon'',
     config_orbits := Some 4, config_orbitDistance := Some 2400000,
     config_orbitalPeriod := Some 27.3, config_spinPeriod := Some 27.3,
     config_radius := Some 1000, config_axis := Some 1.5 \<rparr>"

definition saturn_config :: config where
  "saturn_config = noConfig\<lparr> config_name := Some ''Saturn'', config_orbits := Some 1,
     config_orbitDistance := Some 886000000, config_orbitalPeriod := Some 10760.27,
     config_spinPeriod := Some 0.44, config_radius := Some 36184, config_axis := Some 26.73 \<rparr>"

definition saturnsRings_config :: config where
  "saturnsRings_config = noConfig\<lparr> config_name := Some ''Saturn's Rings'',
     config_orbits := Some 7, config_radius := Some 85000, config_axis := Some 27 \<rparr>"

definition venus_config :: config where
  "venus_config = noConfig\<lparr> config_name := Some ''Venus'', config_orbits := Some 1,
     config_orbitDistance := Some 67000000, config_orbitalPeriod := Some 226.46,
     config_spinPeriod := Some 243, config_spinsClockwise := Some True,
     config_radius := Some 3761, config_axis := Some 177.36 \<rparr>"

text \<open>
  The objects these configs build, each with a fixed value for its \<open>Math.random()\<close>
  draw (\<open>blank\<close> stands in the branch that is never taken).
\<close>

definition galaxy :: body where
  "galaxy = (case AstronomicalObject galaxy_config None 0 of Some b \<Rightarrow> b | None \<Rightarrow> blank)"

definition theSun :: body where
  "theSun = (case AstronomicalObject theSun_config None 0 of Some b \<Rightarrow> b | None \<Rightarrow> blank)"

definition venus :: body where
  "venus = (case AstronomicalObject venus_config (Some theSun) (1 / 2) of
              Some b \<Rightarrow> b | None \<Rightarrow> blank)"

definition earth :: body where
  "earth = (case AstronomicalObject earth_config (Some theSun) (4 / 5) of
              Some b \<Rightarrow> b | None \<Rightarrow> blank)"

definition earthsMoon :: body where
  "earthsMoon = (case AstronomicalObject earthsMoon_config (Some earth) (1 / 2) of
                   Some b \<Rightarrow> b | None \<Rightarrow> blank)"

definition saturn :: body where
  "saturn = (case AstronomicalObject saturn_config (Some theSun) (1 / 2) of
               Some b \<Rightarrow> b | None \<Rightarrow> blank)"

definition saturnsRings :: body where
  "saturnsRings = (case AstronomicalObject saturnsRings_config (Some saturn) 0 of
                     Some b \<Rightarrow> b | None \<Rightarrow> blank)"

text \<open>
  The end-to-end scenario of the specification: a root sun that does not spin, and a
  planet orbiting it with an orbital period of 10 days, a spin period of 2 days and an
  orbit distance that normalises to 100.
\<close>

definition scenarioSun_config :: config where
  "scenarioSun_config = noConfig\<lparr> config_name := Some ''Star'', config_spins := Some False \<rparr>"

definition scenarioPlanet_config :: config where
  "scenarioPlanet_config = noConfig\<lparr> config_name := Some ''Planet'', config_orbits := Some 0,
     config_orbitDistance := Some 5000000, config_orbitalPeriod := Some 10,
     config_spinPeriod := Some 2 \<rparr>"

definition scenarioSun :: body where
  "scenarioSun = (case AstronomicalObject scenarioSun_config None 0 of
                    Some b \<Rightarrow> b | None \<Rightarrow> blank)"

definition scenarioPlanet :: body where
  "scenarioPlanet = (case AstronomicalObject scenarioPlanet_config (Some scenarioSun) (1 / 2) of
                       Some b \<Rightarrow> b | None \<Rightarrow> blank)"

text \<open>
  The application with the two objects of the scenario: as it starts, after its first
  frame, and after the first frame that follows a pause.
\<close>

definition scenarioStart :: app where
  "scenarioStart = \<lparr> timeLastFrame = None, SolarSystem = [scenarioSun, scenarioPlanet] \<rparr>"

definition scenarioApp :: app where
  "scenarioApp = (case run False 1000 5000 scenarioStart of
                    Some a \<Rightarrow> a | None \<Rightarrow> scenarioStart)"

definition scenarioResumed :: app where
  "scenarioResumed = (case run False 1000 5048 (scenarioApp\<lparr> timeLastFrame := None \<rparr>) of
                        Some a \<Rightarrow> a | None \<Rightarrow> scenarioStart)"

text \<open>
  The earth and its moon in the first two frames of the driver: the first frame has no
  elapsed time, the second has 16 milliseconds; the earth is animated before the moon.
\<close>

definition earthAfterFrame1 :: body where
  "earthAfterFrame1 = (case animate (Some theSun) 1000 0 earth of
                         Some b \<Rightarrow> b | None \<Rightarrow> blank)"

definition moonAfterFrame1 :: body where
  "moonAfterFrame1 = (case animate (Some earthAfterFrame1) 1000 0 earthsMoon of
                        Some b \<Rightarrow> b | None \<Rightarrow> blank)"

definition earthAfterFrame2 :: body where
  "earthAfterFrame2 = (case animate (Some theSun) 1000 16 earthAfterFrame1 of
                         Some b \<Rightarrow> b | None \<Rightarrow> blank)"

text \<open>
  The earth and its moon after a first call of \<open>animate\<close> each with 16 milliseconds
  elapsed, the earth first.
\<close>

definition earthMoved :: body where
  "earthMoved = (case animate (Some theSun) 1000 16 earth of
                   Some b \<Rightarrow> b | None \<Rightarrow> blank)"

definition moonMoved :: body where
  "moonMoved = (case animate (Some earthMoved) 1000 16 earthsMoon of
                  Some b \<Rightarrow> b | None \<Rightarrow> blank)"

section \<open>Vector and matrix algebra\<close>

lemma mat4_components:
  obtains a0 a1 a2 a3 b0 b1 b2 b3 c0 c1 c2 c3 d0 d1 d2 d3 where
    "m = Mat4 (Vec4 a0 a1 a2 a3) (Vec4 b0 b1 b2 b3) (Vec4 c0 c1 c2 c3) (Vec4 d0 d1 d2 d3)"
proof (cases m)
  case (Mat4 u v w x)
  then show ?thesis
    by (cases u; cases v; cases w; cases x) (auto intro: that)
qed

lemma rotate_worldY:
  "mat4_rotate (Mat4 c0 c1 c2 c3) a worldY =
     Mat4 (vadd (vscale (cos a) c0) (vscale (- sin a) c2)) c1
          (vadd (vscale (sin a) c0) (vscale (cos a) c2)) c3"
  by (cases c0; cases c1; cases c2) (simp add: worldY_def GLMAT_EPSILON_def lin3_def Let_def)

lemma rotate_rotate_worldY:
  "mat4_rotate (mat4_rotate m a worldY) b worldY = mat4_rotate m (a + b) worldY"
  by (rule mat4_components [of m]) (simp add: rotate_worldY cos_add sin_add algebra_simps)

lemma rotate_zero_worldY: "mat4_rotate m 0 worldY = m"
  by (rule mat4_components [of m]) (simp add: rotate_worldY)

lemma translate_translate_z:
  "mat4_translate (mat4_translate m (0, 0, a)) (0, 0, b) = mat4_translate m (0, 0, a + b)"
  by (rule mat4_components [of m]) (simp add: lin3_def algebra_simps)

lemma translate_zero: "mat4_translate m (0, 0, 0) = m"
  by (rule mat4_components [of m]) (simp add: lin3_def)

lemma multiply_create: "mat4_multiply m mat4_create = m"
  by (rule mat4_components [of m]) (simp add: mat4_create_def lin3_def)

lemma transform_lin3:
  "transform m (lin3 x u y v z w) = lin3 x (transform m u) y (transform m v) z (transform m w)"
  by (rule mat4_components [of m]; cases u; cases v; cases w) (simp add: lin3_def algebra_simps)

lemma transform_vadd: "transform m (vadd u v) = vadd (transform m u) (transform m v)"
  by (rule mat4_components [of m]; cases u; cases v) (simp add: lin3_def algebra_simps)

lemma multiply_translate:
  "mat4_multiply m (mat4_translate n v) = mat4_translate (mat4_multiply m n) v"
  by (cases n; cases v rule: prod_cases3) (simp add: transform_lin3 transform_vadd)

lemma multiply_rotate:
  "mat4_multiply m (mat4_rotate n a ax) = mat4_rotate (mat4_multiply m n) a ax"
  by (cases n; cases ax rule: prod_cases3) (simp add: transform_lin3 Let_def)

lemma position_rotate: "position (mat4_rotate m a ax) = position m"
  by (rule mat4_components [of m]; cases ax rule: prod_cases3)
     (simp add: position_def Let_def lin3_def)

subsection \<open>A rotation and the rotation back\<close>

lemma rot_entries:
  fixes x y z c s t :: real
  assumes n: "x * x + y * y + z * z = 1" and cs: "c * c + s * s = 1" and t: "t = 1 - c"
  shows "(x * x * t + c) * (x * x * t + c) + (y * x * t + z * (- s)) * (x * y * t - z * s) + (z * x * t - y * (- s)) * (x * z * t + y * s) = 1"
    and "(x * x * t + c) * (y * x * t + z * s) + (y * x * t + z * (- s)) * (y * y * t + c) + (z * x * t - y * (- s)) * (y * z * t - x * s) = 0"
    and "(x * x * t + c) * (z * x * t - y * s) + (y * x * t + z * (- s)) * (z * y * t + x * s) + (z * x * t - y * (- s)) * (z * z * t + c) = 0"
    and "(x * y * t - z * (- s)) * (x * x * t + c) + (y * y * t + c) * (x * y * t - z * s) + (z * y * t + x * (- s)) * (x * z * t + y * s) = 0"
    and "(x * y * t - z * (- s)) * (y * x * t + z * s) + (y * y * t + c) * (y * y * t + c) + (z * y * t + x * (- s)) * (y * z * t - x * s) = 1"
    and "(x * y * t - z * (- s)) * (z * x * t - y * s) + (y * y * t + c) * (z * y * t + x * s) + (z * y * t + x * (- s)) * (z * z * t + c) = 0"
    and "(x * z * t + y * (- s)) * (x * x * t + c) + (y * z * t - x * (- s)) * (x * y * t - z * s) + (z * z * t + c) * (x * z * t + y * s) = 0"
    and "(x * z * t + y * (- s)) * (y * x * t + z * s) + (y * z * t - x * (- s)) * (y * y * t + c) + (z * z * t + c) * (y * z * t - x * s) = 0"
    and "(x * z * t + y * (- s)) * (z * x * t - y * s) + (y * z * t - x * (- s)) * (z * y * t + x * s) + (z * z * t + c) * (z * z * t + c) = 1"
proof -
  show "(x * x * t + c) * (x * x * t + c) + (y * x * t + z * (- s)) * (x * y * t - z * s) + (z * x * t - y * (- s)) * (x * z * t + y * s) = 1"
    using n cs unfolding t by algebra
  show "(x * x * t + c) * (y * x * t + z * s) + (y * x * t + z * (- s)) * (y * y * t + c) + (z * x * t - y * (- s)) * (y * z * t - x * s) = 0"
    using n cs unfolding t by algebra
  show "(x * x * t + c) * (z * x * t - y * s) + (y * x * t + z * (- s)) * (z * y * t + x * s) + (z * x * t - y * (- s)) * (z * z * t + c) = 0"
    using n cs unfolding t by algebra
  show "(x * y * t - z * (- s)) * (x * x * t + c) + (y * y * t + c) * (x * y * t - z * s) + (z * y * t + x * (- s)) * (x * z * t + y * s) = 0"
    using n cs unfolding t by algebra
  show "(x * y * t - z * (- s)) * (y * x * t + z * s) + (y * y * t + c) * (y * y * t + c) + (z * y * t + x * (- s)) * (y * z * t - x * s) = 1"
    using n cs unfolding t by algebra
  show "(x * y * t - z * (- s)) * (z * x * t - y * s) + (y * y * t + c) * (z * y * t + x * s) + (z * y * t + x * (- s)) * (z * z * t + c) = 0"
    using n cs unfolding t by algebra
  show "(x * z * t + y * (- s)) * (x * x * t + c) + (y * z * t - x * (- s)) * (x * y * t - z * s) + (z * z * t + c) * (x * z * t + y * s) = 0"
    using n cs unfolding t by algebra
  show "(x * z * t + y * (- s)) * (y * x * t + z * s) + (y * z * t - x * (- s)) * (y * y * t + c) + (z * z * t + c) * (y * z * t - x * s) = 0"
    using n cs unfolding t by algebra
  show "(x * z * t + y * (- s)) * (z * x * t - y * s) + (y * z * t - x * (- s)) * (z * y * t + x * s) + (z * z * t + c) * (z * z * t + c) = 1"
    using n cs unfolding t by algebra
qed

lemma lin3_lin3:
  "lin3 p (lin3 a0 u a1 v a2 w) q (lin3 b0 u b1 v b2 w) r (lin3 c0 u c1 v c2 w) =
   lin3 (p * a0 + q * b0 + r * c0) u (p * a1 + q * b1 + r * c1) v (p * a2 + q * b2 + r * c2) w"
  by (cases u; cases v; cases w) (simp add: lin3_def algebra_simps)

lemma lin3_unit:
  "lin3 1 u 0 v 0 w = u" "lin3 0 u 1 v 0 w = v" "lin3 0 u 0 v 1 w = w"
  by (cases u; cases v; cases w; simp add: lin3_def)+

lemma rotate_nondegenerate:
  assumes "\<not> \<bar>len\<bar> < GLMAT_EPSILON"
    and "len = sqrt (ax * ax + ay * ay + az * az)"
    and "x = ax * (1 / len)" and "y = ay * (1 / len)" and "z = az * (1 / len)"
    and "s = sin rad" and "c = cos rad" and "t = 1 - c"
  shows "mat4_rotate (Mat4 c0 c1 c2 c3) rad (ax, ay, az) =
           Mat4 (lin3 (x * x * t + c) c0 (y * x * t + z * s) c1 (z * x * t - y * s) c2)
             (lin3 (x * y * t - z * s) c0 (y * y * t + c) c1 (z * y * t + x * s) c2)
             (lin3 (x * z * t + y * s) c0 (y * z * t - x * s) c1 (z * z * t + c) c2) c3"
  using assms by (simp add: Let_def)

lemma rotate_back: "mat4_rotate (mat4_rotate m a ax) (- a) ax = m"
proof -
  obtain c0 c1 c2 c3 where m: "m = Mat4 c0 c1 c2 c3" by (cases m)
  obtain ax0 ay0 az0 where ax: "ax = (ax0, ay0, az0)" by (cases ax rule: prod_cases3)
  define len where "len = sqrt (ax0 * ax0 + ay0 * ay0 + az0 * az0)"
  show ?thesis
  proof (cases "\<bar>len\<bar> < GLMAT_EPSILON")
    case True
    then show ?thesis by (simp add: m ax len_def)
  next
    case False
    define x where "x = ax0 * (1 / len)"
    define y where "y = ay0 * (1 / len)"
    define z where "z = az0 * (1 / len)"
    define c where "c = cos a"
    define s where "s = sin a"
    define t where "t = 1 - c"
    have "0 \<le> len" by (simp add: len_def)
    with False have pos: "0 < len" by (simp add: GLMAT_EPSILON_def)
    have sq: "ax0 * ax0 + ay0 * ay0 + az0 * az0 = len * len"
      unfolding len_def by (simp add: add_nonneg_nonneg)
    have "x * x + y * y + z * z = (ax0 * ax0 + ay0 * ay0 + az0 * az0) / (len * len)"
      by (simp add: x_def y_def z_def add_divide_distrib)
    also have "\<dots> = 1" unfolding sq using pos by simp
    finally have n: "x * x + y * y + z * z = 1" .
    have cs: "c * c + s * s = 1"
      unfolding c_def s_def using sin_cos_squared_add3 [of a] by (simp add: add.commute)
    note e = rot_entries [OF n cs t_def]
    have s': "- s = sin (- a)" and c': "c = cos (- a)" by (simp_all add: s_def c_def)
    have 1: "mat4_rotate (Mat4 c0 c1 c2 c3) a (ax0, ay0, az0) =
           Mat4 (lin3 (x * x * t + c) c0 (y * x * t + z * s) c1 (z * x * t - y * s) c2)
             (lin3 (x * y * t - z * s) c0 (y * y * t + c) c1 (z * y * t + x * s) c2)
             (lin3 (x * z * t + y * s) c0 (y * z * t - x * s) c1 (z * z * t + c) c2) c3"
      by (rule rotate_nondegenerate [OF False len_def x_def y_def z_def s_def c_def t_def])
    have 2: "mat4_rotate (Mat4 d0 d1 d2 c3) (- a) (ax0, ay0, az0) =
           Mat4 (lin3 (x * x * t + c) d0 (y * x * t + z * (- s)) d1 (z * x * t - y * (- s)) d2)
             (lin3 (x * y * t - z * (- s)) d0 (y * y * t + c) d1 (z * y * t + x * (- s)) d2)
             (lin3 (x * z * t + y * (- s)) d0 (y * z * t - x * (- s)) d1 (z * z * t + c) d2) c3" for d0 d1 d2
      by (rule rotate_nondegenerate [OF False len_def x_def y_def z_def s' c' t_def])
    show ?thesis
      unfolding m ax 1 2 lin3_lin3 e lin3_unit ..
  qed
qed

section \<open>What one call of animate changes\<close>

lemma animateBy_angles:
  "lastOrbitAngle (animateBy P oa sa b) = oa"
  "cumulativeOrbitAngle (animateBy P oa sa b) = cumulativeOrbitAngle b + oa"
  "lastSpinAngle (animateBy P oa sa b) = lastSpinAngle b + sa"
  by (simp_all add: animateBy_def updateAttributes_def afterOrbit_def Let_def split: option.split)

lemma animateBy_static:
  "name (animateBy P oa sa b) = name b"
  "orbits (animateBy P oa sa b) = orbits b"
  "orbitDistance (animateBy P oa sa b) = orbitDistance b"
  "orbitalPeriod (animateBy P oa sa b) = orbitalPeriod b"
  "spinPeriod (animateBy P oa sa b) = spinPeriod b"
  "radius (animateBy P oa sa b) = radius b"
  "spins (animateBy P oa sa b) = spins b"
  "spinsClockwise (animateBy P oa sa b) = spinsClockwise b"
  "axis (animateBy P oa sa b) = axis b"
  "axisArray (animateBy P oa sa b) = axisArray b"
  "distanceFromBodyWeAreOrbiting (animateBy P oa sa b) = distanceFromBodyWeAreOrbiting b"
  "origin (animateBy P oa sa b) = origin b"
  by (simp_all add: animateBy_def updateAttributes_def afterOrbit_def Let_def split: option.split)

lemma calculatePortionOf_eq:
  "r * a \<noteq> 0 \<Longrightarrow> calculatePortionOf a t r = Some (2 * pi * t / (r * a))"
  by (simp add: calculatePortionOf_def)

lemma calculatePortionOf_SomeD:
  "calculatePortionOf a t r = Some x \<Longrightarrow> r * a \<noteq> 0 \<and> x = 2 * pi * t / (r * a)"
  by (auto simp: calculatePortionOf_def Let_def split: if_splits)

lemma animate_eq:
  "r * orbitalPeriod b \<noteq> 0 \<Longrightarrow> r * spinPeriod b \<noteq> 0 \<Longrightarrow>
   animate P r t b =
     Some (animateBy P (2 * pi * t / (r * orbitalPeriod b)) (2 * pi * t / (r * spinPeriod b)) b)"
  by (simp add: animate_def calculatePortionOf_eq)

lemma animate_SomeD:
  assumes "animate P r t b = Some b'"
  shows "r * orbitalPeriod b \<noteq> 0" and "r * spinPeriod b \<noteq> 0"
    and "b' = animateBy P (2 * pi * t / (r * orbitalPeriod b))
                (2 * pi * t / (r * spinPeriod b)) b"
proof -
  from assms obtain oa sa where oa: "calculatePortionOf (orbitalPeriod b) t r = Some oa"
    and sa: "calculatePortionOf (spinPeriod b) t r = Some sa"
    and b': "b' = animateBy P oa sa b"
    by (auto simp: animate_def split: option.splits)
  from calculatePortionOf_SomeD [OF oa] show "r * orbitalPeriod b \<noteq> 0" by simp
  from calculatePortionOf_SomeD [OF sa] show "r * spinPeriod b \<noteq> 0" by simp
  from calculatePortionOf_SomeD [OF oa] calculatePortionOf_SomeD [OF sa] b'
  show "b' = animateBy P (2 * pi * t / (r * orbitalPeriod b))
                (2 * pi * t / (r * spinPeriod b)) b" by simp
qed

lemma animate_static:
  assumes "animate P r t b = Some b'"
  shows "name b' = name b" and "orbits b' = orbits b"
    and "orbitalPeriod b' = orbitalPeriod b" and "spinPeriod b' = spinPeriod b"
    and "axis b' = axis b" and "axisArray b' = axisArray b"
    and "distanceFromBodyWeAreOrbiting b' = distanceFromBodyWeAreOrbiting b"
    and "origin b' = origin b" and "spins b' = spins b"
    and "spinsClockwise b' = spinsClockwise b"
  using animate_SomeD(3) [OF assms] by (simp_all add: animateBy_static)

lemma animateCalls_static:
  assumes "animateCalls calls b = Some b'"
  shows "name b' = name b \<and> orbitalPeriod b' = orbitalPeriod b \<and> spinPeriod b' = spinPeriod b \<and>
         axis b' = axis b \<and> axisArray b' = axisArray b \<and>
         distanceFromBodyWeAreOrbiting b' = distanceFromBodyWeAreOrbiting b"
  using assms
proof (induction calls arbitrary: b)
  case Nil
  then show ?case by simp
next
  case (Cons c calls)
  obtain P r t where c: "c = (P, r, t)" by (cases c)
  from Cons.prems c obtain b1 where 1: "animate P r t b = Some b1"
    and 2: "animateCalls calls b1 = Some b'"
    by (auto split: option.splits)
  from Cons.IH [OF 2] animate_static [OF 1] show ?case by simp
qed

section \<open>What the constructor builds\<close>

lemma Sun_not_rings: "''Sun'' \<noteq> saturnsRingsName"
  by (simp add: saturnsRingsName_def)

lemma setAttributes_SomeD:
  assumes "setAttributes cfg P blank = Some b"
  shows "name b = str_or (config_name cfg) ''name not set''"
    and "orbits b = config_orbits cfg"
    and "spinsClockwise b = getBoolean (config_spinsClockwise cfg) False"
    and "isNotFirstAnimationFrame b = False"
    and "axisArray b = (num_or (config_axis cfg) 0 / 90, 1 - num_or (config_axis cfg) 0 / 90, 0)"
    and "name b \<noteq> saturnsRingsName \<Longrightarrow> orbitalPeriod b = num_or (config_orbitalPeriod cfg) 1"
    and "name b \<noteq> saturnsRingsName \<Longrightarrow> spinPeriod b = num_or (config_spinPeriod cfg) 1"
    and "name b = saturnsRingsName \<Longrightarrow>
           \<exists>p. P = Some p \<and> distanceFromBodyWeAreOrbiting b = 0 \<and>
               orbitalPeriod b = orbitalPeriod p \<and> spinPeriod b = spinPeriod p"
  using assms
  by (auto simp: setAttributes_def prepareSpecialCases_def normalise_def setAxis_def blank_def
        degreesToRadians_def Let_def Sun_not_rings split: option.splits if_splits)

lemma setOrigin_fields:
  "name (setOrigin v P b) = name b"
  "orbits (setOrigin v P b) = orbits b"
  "spinsClockwise (setOrigin v P b) = spinsClockwise b"
  "isNotFirstAnimationFrame (setOrigin v P b) = isNotFirstAnimationFrame b"
  "axisArray (setOrigin v P b) = axisArray b"
  "orbitalPeriod (setOrigin v P b) = orbitalPeriod b"
  "spinPeriod (setOrigin v P b) = spinPeriod b"
  "distanceFromBodyWeAreOrbiting (setOrigin v P b) = distanceFromBodyWeAreOrbiting b"
  by (simp_all add: setOrigin_def split: option.split prod.split)

lemma setRandomStartingOrbit_SomeD:
  assumes "setRandomStartingOrbit u P b = Some b'"
  shows "name b' = name b"
    and "orbits b' = orbits b"
    and "spinsClockwise b' = spinsClockwise b"
    and "isNotFirstAnimationFrame b' = isNotFirstAnimationFrame b"
    and "axisArray b' = axisArray b"
    and "orbitalPeriod b' = orbitalPeriod b"
    and "spinPeriod b' = spinPeriod b"
    and "distanceFromBodyWeAreOrbiting b' = distanceFromBodyWeAreOrbiting b"
    and "origin b' = origin b"
    and "lastSpinAngle b' = 0"
    and "cumulativeOrbitAngle b' = lastOrbitAngle b'"
  using assms
  by (auto simp: setRandomStartingOrbit_def Let_def split: if_splits)

lemma initMatrix_fields:
  "name (initMatrix P b) = name b"
  "orbits (initMatrix P b) = orbits b"
  "spinsClockwise (initMatrix P b) = spinsClockwise b"
  "isNotFirstAnimationFrame (initMatrix P b) = isNotFirstAnimationFrame b"
  "axisArray (initMatrix P b) = axisArray b"
  "orbitalPeriod (initMatrix P b) = orbitalPeriod b"
  "spinPeriod (initMatrix P b) = spinPeriod b"
  "distanceFromBodyWeAreOrbiting (initMatrix P b) = distanceFromBodyWeAreOrbiting b"
  "origin (initMatrix P b) = origin b"
  "lastSpinAngle (initMatrix P b) = lastSpinAngle b"
  "lastOrbitAngle (initMatrix P b) = lastOrbitAngle b"
  "cumulativeOrbitAngle (initMatrix P b) = cumulativeOrbitAngle b"
  by (simp_all add: initMatrix_def Let_def)

lemma AstronomicalObject_SomeD:
  assumes "AstronomicalObject cfg P u = Some b"
  obtains b1 b3 where "setAttributes cfg P blank = Some b1"
    and "setRandomStartingOrbit u P (setOrigin (config_origin cfg) P b1) = Some b3"
    and "b = initMatrix P b3"
  using assms by (auto simp: AstronomicalObject_def split: option.splits)

lemma AstronomicalObject_fields:
  assumes "AstronomicalObject cfg P u = Some b"
  shows "name b = str_or (config_name cfg) ''name not set''"
    and "orbits b = config_orbits cfg"
    and "isNotFirstAnimationFrame b = False"
    and "axisArray b = (num_or (config_axis cfg) 0 / 90, 1 - num_or (config_axis cfg) 0 / 90, 0)"
    and "lastSpinAngle b = 0"
    and "cumulativeOrbitAngle b = lastOrbitAngle b"
proof -
  from assms obtain b1 b3 where 1: "setAttributes cfg P blank = Some b1"
    and 3: "setRandomStartingOrbit u P (setOrigin (config_origin cfg) P b1) = Some b3"
    and b: "b = initMatrix P b3"
    by (rule AstronomicalObject_SomeD)
  note f1 = setAttributes_SomeD [OF 1]
  note f3 = setRandomStartingOrbit_SomeD [OF 3]
  show "name b = str_or (config_name cfg) ''name not set''"
    by (simp add: b initMatrix_fields f3 setOrigin_fields f1)
  show "orbits b = config_orbits cfg"
    by (simp add: b initMatrix_fields f3 setOrigin_fields f1)
  show "isNotFirstAnimationFrame b = False"
    by (simp add: b initMatrix_fields f3 setOrigin_fields f1)
  show "axisArray b = (num_or (config_axis cfg) 0 / 90, 1 - num_or (config_axis cfg) 0 / 90, 0)"
    by (simp add: b initMatrix_fields f3 setOrigin_fields f1)
  show "lastSpinAngle b = 0"
    by (simp add: b initMatrix_fields f3)
  show "cumulativeOrbitAngle b = lastOrbitAngle b"
    by (simp add: b initMatrix_fields f3)
qed

lemma AstronomicalObject_periods:
  assumes "AstronomicalObject cfg P u = Some b"
  shows "name b \<noteq> saturnsRingsName \<Longrightarrow> orbitalPeriod b = num_or (config_orbitalPeriod cfg) 1"
    and "name b \<noteq> saturnsRingsName \<Longrightarrow> spinPeriod b = num_or (config_spinPeriod cfg) 1"
    and "name b = saturnsRingsName \<Longrightarrow>
           \<exists>p. P = Some p \<and> distanceFromBodyWeAreOrbiting b = 0 \<and>
               orbitalPeriod b = orbitalPeriod p \<and> spinPeriod b = spinPeriod p"
proof -
  from assms obtain b1 b3 where 1: "setAttributes cfg P blank = Some b1"
    and 3: "setRandomStartingOrbit u P (setOrigin (config_origin cfg) P b1) = Some b3"
    and b: "b = initMatrix P b3"
    by (rule AstronomicalObject_SomeD)
  note f1 = setAttributes_SomeD [OF 1]
  note f3 = setRandomStartingOrbit_SomeD [OF 3]
  have n: "name b = name b1" by (simp add: b initMatrix_fields f3 setOrigin_fields)
  have o: "orbitalPeriod b = orbitalPeriod b1" by (simp add: b initMatrix_fields f3 setOrigin_fields)
  have s: "spinPeriod b = spinPeriod b1" by (simp add: b initMatrix_fields f3 setOrigin_fields)
  have d: "distanceFromBodyWeAreOrbiting b = distanceFromBodyWeAreOrbiting b1"
    by (simp add: b initMatrix_fields f3 setOrigin_fields)
  show "name b \<noteq> saturnsRingsName \<Longrightarrow> orbitalPeriod b = num_or (config_orbitalPeriod cfg) 1"
    using f1(6) n o by simp
  show "name b \<noteq> saturnsRingsName \<Longrightarrow> spinPeriod b = num_or (config_spinPeriod cfg) 1"
    using f1(7) n s by simp
  show "name b = saturnsRingsName \<Longrightarrow>
           \<exists>p. P = Some p \<and> distanceFromBodyWeAreOrbiting b = 0 \<and>
               orbitalPeriod b = orbitalPeriod p \<and> spinPeriod b = spinPeriod p"
    using f1(8) n o s d by simp
qed

lemma num_or_nonzero: "d \<noteq> 0 \<Longrightarrow> num_or x d \<noteq> 0"
  by (simp add: num_or_def split: option.split)

lemma num_or_default: "x = None \<or> x = Some 0 \<Longrightarrow> num_or x d = d"
  by (auto simp: num_or_def)

lemma AstronomicalObject_periods_nonzero:
  assumes "AstronomicalObject cfg P u = Some b"
    and "\<And>p. P = Some p \<Longrightarrow> orbitalPeriod p \<noteq> 0 \<and> spinPeriod p \<noteq> 0"
  shows "orbitalPeriod b \<noteq> 0 \<and> spinPeriod b \<noteq> 0"
proof (cases "name b = saturnsRingsName")
  case True
  from AstronomicalObject_periods(3) [OF assms(1) True] assms(2) show ?thesis by auto
next
  case False
  from AstronomicalObject_periods(1,2) [OF assms(1) False] show ?thesis
    by (simp add: num_or_nonzero)
qed

lemma reachable_periods: "reachable b \<Longrightarrow> orbitalPeriod b \<noteq> 0 \<and> spinPeriod b \<noteq> 0"
proof (induction rule: reachable.induct)
  case (new_root cfg u b)
  then show ?case by (rule AstronomicalObject_periods_nonzero) simp
next
  case (new_orbiting p cfg u b)
  from new_orbiting(2) show ?case
    by (rule AstronomicalObject_periods_nonzero) (use new_orbiting(3) in simp)
next
  case (animate_root b r t b')
  then show ?case by (simp add: animate_static)
next
  case (animate_orbiting b p r t b')
  then show ?case by (simp add: animate_static)
qed

section \<open>The example objects, evaluated\<close>

lemmas constructor_defs = AstronomicalObject_def setAttributes_def setAxis_def normalise_def
  prepareSpecialCases_def setOrigin_def setRandomStartingOrbit_def initMatrix_def blank_def
  num_or_def str_or_def getBoolean_def degreesToRadians_def saturnsRingsName_def Let_def

lemmas matrix_defs = worldY_def GLMAT_EPSILON_def mat4_create_def lin3_def

lemma scenarioSun_built: "AstronomicalObject scenarioSun_config None 0 = Some scenarioSun"
  by (simp add: scenarioSun_def scenarioSun_config_def noConfig_def constructor_defs)

lemma scenarioPlanet_built:
  "AstronomicalObject scenarioPlanet_config (Some scenarioSun) (1 / 2) = Some scenarioPlanet"
  by (simp add: scenarioPlanet_def scenarioPlanet_config_def scenarioSun_def
        scenarioSun_config_def noConfig_def constructor_defs)

lemma scenarioPlanet_periods:
  "orbitalPeriod scenarioPlanet = 10" "spinPeriod scenarioPlanet = 2"
  "orbitDistance scenarioPlanet = 100"
  by (simp_all add: scenarioPlanet_def scenarioPlanet_config_def scenarioSun_def
        scenarioSun_config_def noConfig_def constructor_defs)

lemmas example_defs = galaxy_def theSun_def venus_def earth_def earthsMoon_def saturn_def
  saturnsRings_def galaxy_config_def theSun_config_def venus_config_def earth_config_def
  earthsMoon_config_def saturn_config_def saturnsRings_config_def noConfig_def

lemma theSun_built: "AstronomicalObject theSun_config None 0 = Some theSun"
  by (simp add: example_defs constructor_defs)

lemma galaxy_built: "AstronomicalObject galaxy_config None 0 = Some galaxy"
  by (simp add: example_defs constructor_defs)

lemma venus_built: "AstronomicalObject venus_config (Some theSun) (1 / 2) = Some venus"
  by (simp add: example_defs constructor_defs)

lemma earth_built: "AstronomicalObject earth_config (Some theSun) (4 / 5) = Some earth"
  by (simp add: example_defs constructor_defs)

lemma earthsMoon_built:
  "AstronomicalObject earthsMoon_config (Some earth) (1 / 2) = Some earthsMoon"
  by (simp add: example_defs constructor_defs)

lemma saturn_built: "AstronomicalObject saturn_config (Some theSun) (1 / 2) = Some saturn"
  by (simp add: example_defs constructor_defs)

lemma saturnsRings_built:
  "AstronomicalObject saturnsRings_config (Some saturn) 0 = Some saturnsRings"
  by (simp add: example_defs constructor_defs)

lemma example_periods:
  "orbitalPeriod galaxy = 1" "spinPeriod galaxy = 1"
  "orbitalPeriod theSun = 1" "spinPeriod theSun = 29"
  "orbitalPeriod venus = 226.46" "spinPeriod venus = 243"
  "orbitalPeriod earth = 365.25" "spinPeriod earth = 1"
  "orbitalPeriod earthsMoon = 27.3" "spinPeriod earthsMoon = 27.3"
  "orbitalPeriod saturn = 10760.27" "spinPeriod saturn = 0.44"
  "orbitalPeriod saturnsRings = 10760.27" "spinPeriod saturnsRings = 0.44"
  by (simp_all add: example_defs constructor_defs)

lemma example_names:
  "name galaxy = ''Galaxy''" "name theSun = ''Sun''" "name saturnsRings = saturnsRingsName"
  by (simp_all add: example_defs constructor_defs)

lemma venus_one_call:
  "animateCalls [(Some theSun, 1000, 16)] venus =
     Some (animateBy (Some theSun) (2 * pi * 16 / (1000 * 226.46)) (2 * pi * 16 / (1000 * 243)) venus)"
  by (simp add: animate_eq example_periods)

lemma animateCalls_constant:
  assumes "r * orbitalPeriod b \<noteq> 0" and "r * spinPeriod b \<noteq> 0"
  shows "\<exists>b'. animateCalls (map (\<lambda>p. (p, r, t)) ps) b = Some b' \<and>
              orbitalPeriod b' = orbitalPeriod b \<and> spinPeriod b' = spinPeriod b \<and>
              cumulativeOrbitAngle b' =
                cumulativeOrbitAngle b + real (length ps) * (2 * pi * t / (r * orbitalPeriod b))"
  using assms
proof (induction ps arbitrary: b)
  case Nil
  then show ?case by simp
next
  case (Cons p ps)
  let ?b1 = "animateBy p (2 * pi * t / (r * orbitalPeriod b)) (2 * pi * t / (r * spinPeriod b)) b"
  have 1: "animate p r t b = Some ?b1"
    using Cons.prems by (rule animate_eq)
  have "r * orbitalPeriod ?b1 \<noteq> 0" and "r * spinPeriod ?b1 \<noteq> 0"
    using Cons.prems by (simp_all add: animateBy_static)
  from Cons.IH [OF this] obtain b' where
    b': "animateCalls (map (\<lambda>p. (p, r, t)) ps) ?b1 = Some b'"
      "orbitalPeriod b' = orbitalPeriod ?b1" "spinPeriod b' = spinPeriod ?b1"
      "cumulativeOrbitAngle b' =
         cumulativeOrbitAngle ?b1 + real (length ps) * (2 * pi * t / (r * orbitalPeriod ?b1))"
    by blast
  from 1 b' show ?case
    by (simp add: animateBy_static animateBy_angles distrib_right add_divide_distrib)
qed

lemma example_phases:
  "cumulativeOrbitAngle earth = 5 * pi / 2" "cumulativeOrbitAngle earthsMoon = 4 * pi"
  "cumulativeOrbitAngle scenarioPlanet = 4 * pi"
  by (simp_all add: example_defs scenarioPlanet_def scenarioPlanet_config_def scenarioSun_def
        scenarioSun_config_def constructor_defs)

lemma saturn_one_call:
  "animateCalls [(Some theSun, 1000, 16)] saturn =
     Some (animateBy (Some theSun) (2 * pi * 16 / (1000 * 10760.27))
             (2 * pi * 16 / (1000 * 0.44)) saturn)"
  by (simp add: animate_eq example_periods)

lemma saturnsRings_one_call:
  "animateCalls [(Some saturn, 1000, 16)] saturnsRings =
     Some (animateBy (Some saturn) (2 * pi * 16 / (1000 * 10760.27))
             (2 * pi * 16 / (1000 * 0.44)) saturnsRings)"
  by (simp add: animate_eq example_periods)

lemma animateBy_root_matrix:
  "modelViewMatrix (animateBy None oa sa b) =
     (if spins b then mat4_rotate (modelViewMatrix b) sa worldY else modelViewMatrix b)"
  by (simp add: animateBy_def updateAttributes_def Let_def)

lemma example_roots:
  "orbits theSun = None" "orbits galaxy = None" "spins theSun" "\<not> spins galaxy"
  by (simp_all add: example_defs constructor_defs)

section \<open>The frame driver\<close>

lemma animate_zero_elapsed:
  assumes "animate P r 0 b = Some b'"
  shows "lastOrbitAngle b' = 0" and "cumulativeOrbitAngle b' = cumulativeOrbitAngle b"
    and "lastSpinAngle b' = lastSpinAngle b"
  using animate_SomeD(3) [OF assms] by (simp_all add: animateBy_angles)

lemma animateEach_zero_elapsed:
  assumes "animateEach is r 0 ss = Some ss'"
  shows "length ss' = length ss \<and>
         (\<forall>k<length ss. cumulativeOrbitAngle (ss' ! k) = cumulativeOrbitAngle (ss ! k) \<and>
                        lastSpinAngle (ss' ! k) = lastSpinAngle (ss ! k))"
  using assms
proof (induction "is" arbitrary: ss)
  case Nil
  then show ?case by simp
next
  case (Cons i "is")
  from Cons.prems obtain b1 where 1: "animate (orbitedOf ss (ss ! i)) r 0 (ss ! i) = Some b1"
    and 2: "animateEach is r 0 (ss[i := b1]) = Some ss'"
    by (auto split: option.splits)
  note z = animate_zero_elapsed [OF 1]
  from Cons.IH [OF 2] have len: "length ss' = length ss"
    and same: "\<And>k. k < length ss \<Longrightarrow>
       cumulativeOrbitAngle (ss' ! k) = cumulativeOrbitAngle (ss[i := b1] ! k) \<and>
       lastSpinAngle (ss' ! k) = lastSpinAngle (ss[i := b1] ! k)"
    by simp_all
  have "cumulativeOrbitAngle (ss[i := b1] ! k) = cumulativeOrbitAngle (ss ! k) \<and>
        lastSpinAngle (ss[i := b1] ! k) = lastSpinAngle (ss ! k)" if "k < length ss" for k
    using that z by (cases "i = k") simp_all
  with len same show ?case by simp
qed

lemma run_paused: "run True r now a = Some (a\<lparr> timeLastFrame := None \<rparr>)"
  by (simp add: run_def)

lemma runs_paused:
  assumes "\<forall>f\<in>set frames. fst f"
  shows "\<exists>a'. runs frames a = Some a' \<and> SolarSystem a' = SolarSystem a \<and>
              (frames \<noteq> [] \<longrightarrow> timeLastFrame a' = None)"
  using assms
proof (induction frames arbitrary: a)
  case Nil
  then show ?case by simp
next
  case (Cons f frames)
  obtain p r now where f: "f = (p, r, now)" by (cases f)
  with Cons.prems have p: "p" and rest: "\<forall>f\<in>set frames. fst f" by simp_all
  from Cons.IH [OF rest, of "a\<lparr> timeLastFrame := None \<rparr>"] obtain a' where
    a': "runs frames (a\<lparr> timeLastFrame := None \<rparr>) = Some a'"
      "SolarSystem a' = SolarSystem a"
      "frames \<noteq> [] \<longrightarrow> timeLastFrame a' = None"
    by auto
  have "timeLastFrame a' = None"
  proof (cases frames)
    case Nil
    with a'(1) show ?thesis by auto
  next
    case (Cons g gs)
    with a'(3) show ?thesis by simp
  qed
  with a' f p show ?case by (simp add: run_paused)
qed

lemma elapsed_after_pause:
  "timeLastFrame a = None \<Longrightarrow> fst (millisecondsSinceLastFrame now a) = 0"
  by (simp add: millisecondsSinceLastFrame_def Let_def)

lemma run_after_pause:
  assumes "timeLastFrame a = None" and "run False r now a = Some a''"
  shows "length (SolarSystem a'') = length (SolarSystem a) \<and>
         (\<forall>i<length (SolarSystem a).
            cumulativeOrbitAngle (SolarSystem a'' ! i) = cumulativeOrbitAngle (SolarSystem a ! i) \<and>
            lastSpinAngle (SolarSystem a'' ! i) = lastSpinAngle (SolarSystem a ! i))"
proof -
  from assms obtain ss where
    ss: "animateEach [0..<length (SolarSystem a)] r 0 (SolarSystem a) = Some ss"
    and a'': "SolarSystem a'' = ss"
    by (auto simp: run_def App_animate_def millisecondsSinceLastFrame_def Let_def
          split: option.splits)
  from animateEach_zero_elapsed [OF ss] a'' show ?thesis by simp
qed

lemma scenario_fields:
  "orbitalPeriod scenarioSun = 1" "spinPeriod scenarioSun = 1"
  "orbits scenarioSun = None" "orbits scenarioPlanet = Some 0"
  by (simp_all add: scenarioPlanet_def scenarioPlanet_config_def scenarioSun_def
        scenarioSun_config_def noConfig_def constructor_defs)

section \<open>The orbit transform of a moon\<close>

lemma col1_rotate_worldY: "col1 (mat4_rotate m a worldY) = col1 m"
  by (cases m) (simp add: rotate_worldY)

lemma col1_translate: "col1 (mat4_translate m v) = col1 m"
  by (cases m; cases v rule: prod_cases3) simp

lemma col1_sevenSteps: "col1 (sevenSteps p b oa m) = col1 m"
  by (simp add: sevenSteps_def col1_rotate_worldY col1_translate)

lemma orbitMatrix_moon:
  "orbits p \<noteq> None \<Longrightarrow> orbitMatrix p b oa = sevenSteps p b oa (unspin b)"
  by (auto simp add: orbitMatrix_def sevenSteps_def unspin_def Let_def)

lemma unspin_first_frame: "\<not> isNotFirstAnimationFrame b \<Longrightarrow> unspin b = mat4_create"
  by (simp add: unspin_def beforeOrbit_def)

lemma multiply_sevenSteps:
  "mat4_multiply m (sevenSteps p b oa n) = sevenSteps p b oa (mat4_multiply m n)"
  by (simp add: sevenSteps_def multiply_translate multiply_rotate)

lemma multiply_unspin: "mat4_multiply m (unspin b) = beforeOrbit b m"
  by (simp add: unspin_def beforeOrbit_def multiply_rotate multiply_create Let_def)

lemma animateBy_orbiting_matrix:
  "modelViewMatrix (animateBy (Some p) oa sa b) =
     mat4_rotate
       (mat4_rotate (mat4_multiply (modelViewMatrix b) (orbitMatrix p b oa)) 1 (axisArray b))
       (if spinsClockwise b then - lastSpinAngle b - sa else lastSpinAngle b + sa) worldY"
  by (simp add: animateBy_def updateAttributes_def afterOrbit_def Let_def)

lemma example_orbits:
  "orbits earth = Some 1" "orbits earthsMoon = Some 4"
  "axisArray earthsMoon = (1 / 60, 59 / 60, 0)" "spinsClockwise earthsMoon = False"
  "lastSpinAngle earthsMoon = 0" "lastSpinAngle earth = 0"
  by (simp_all add: example_defs constructor_defs)

lemma earthAfterFrame1_eq: "earthAfterFrame1 = animateBy (Some theSun) 0 0 earth"
  by (simp add: earthAfterFrame1_def animate_eq example_periods)

lemma earthAfterFrame1_built: "animate (Some theSun) 1000 0 earth = Some earthAfterFrame1"
  by (simp add: earthAfterFrame1_def animate_eq example_periods)

lemma moonAfterFrame1_eq: "moonAfterFrame1 = animateBy (Some earthAfterFrame1) 0 0 earthsMoon"
  by (simp add: moonAfterFrame1_def animate_eq example_periods)

lemma moonAfterFrame1_built:
  "animate (Some earthAfterFrame1) 1000 0 earthsMoon = Some moonAfterFrame1"
  by (simp add: moonAfterFrame1_def animate_eq example_periods)

lemma earthAfterFrame2_eq:
  "earthAfterFrame2 =
     animateBy (Some theSun) (2 * pi * 16 / (1000 * 365.25)) (2 * pi * 16 / 1000) earthAfterFrame1"
  by (simp add: earthAfterFrame2_def earthAfterFrame1_eq animate_eq example_periods animateBy_static)

lemma earthAfterFrame2_built:
  "animate (Some theSun) 1000 16 earthAfterFrame1 = Some earthAfterFrame2"
  by (simp add: earthAfterFrame2_def earthAfterFrame1_eq animate_eq example_periods animateBy_static)

lemma moonAfterFrame1_fields:
  "isNotFirstAnimationFrame moonAfterFrame1" "lastSpinAngle moonAfterFrame1 = 0"
  "axisArray moonAfterFrame1 = (1 / 60, 59 / 60, 0)" "spinsClockwise moonAfterFrame1 = False"
  by (simp_all add: moonAfterFrame1_eq animateBy_static animateBy_angles example_orbits
        animateBy_def updateAttributes_def afterOrbit_def Let_def)

lemma sin_one_pos: "0 < sin (1::real)"
  by (rule sin_gt_zero_02) simp_all

lemma unspin_moonAfterFrame1:
  "col1 (unspin moonAfterFrame1) \<noteq> Vec4 0 1 0 0"
proof -
  let ?len = "sqrt (3482 / 3600 :: real)"
  have "sqrt (1 / 4 :: real) \<le> ?len" by (rule real_sqrt_le_mono) simp
  then have len: "1 / 2 \<le> ?len" by (simp add: real_sqrt_divide)
  then have big: "\<not> \<bar>?len\<bar> < GLMAT_EPSILON" by (simp add: GLMAT_EPSILON_def)
  have l: "sqrt (1 / 60 * (1 / 60) + 59 / 60 * (59 / 60) + 0 * 0 :: real) = ?len"
    by simp
  have "col1 (unspin moonAfterFrame1) =
          col1 (mat4_rotate mat4_create (- 1) (1 / 60, 59 / 60, 0))"
    by (simp add: unspin_def beforeOrbit_def moonAfterFrame1_fields rotate_zero_worldY)
  also have "\<dots> = Vec4 (1 / 60 * (1 / ?len) * (59 / 60 * (1 / ?len)) * (1 - cos 1))
                         (59 / 60 * (1 / ?len) * (59 / 60 * (1 / ?len)) * (1 - cos 1) + cos 1)
                         (- (1 / 60 * (1 / ?len) * sin 1)) 0"
    unfolding mat4_create_def mat4_rotate.simps l Let_def using big
    by (simp add: lin3_def)
  finally have "col1 (unspin moonAfterFrame1) = Vec4 (1 / 60 * (1 / ?len) * (59 / 60 * (1 / ?len)) * (1 - cos 1))
                         (59 / 60 * (1 / ?len) * (59 / 60 * (1 / ?len)) * (1 - cos 1) + cos 1)
                         (- (1 / 60 * (1 / ?len) * sin 1)) 0" .
  moreover have "- (1 / 60 * (1 / ?len) * sin 1) \<noteq> 0"
    using len sin_one_pos by simp
  ultimately show ?thesis by simp
qed

lemma example_frame_orbits:
  "orbits earthAfterFrame1 = Some 1" "orbits earthAfterFrame2 = Some 1"
  "isNotFirstAnimationFrame earthsMoon = False"
  by (simp_all add: earthAfterFrame2_eq earthAfterFrame1_eq animateBy_static example_orbits
        example_defs constructor_defs)

section \<open>World positions after the first frame\<close>

lemma AstronomicalObject_matrix:
  assumes "AstronomicalObject cfg P u = Some b"
  shows "modelViewMatrix b =
           mat4_translate
             (mat4_rotate
               (case P of
                  None \<Rightarrow> mat4_create
                | Some p \<Rightarrow>
                    if orbits p \<noteq> None
                    then mat4_translate (mat4_rotate mat4_create (lastOrbitAngle p) worldY) (origin p)
                    else mat4_create)
               (lastOrbitAngle b) worldY)
             (0, 0, - distanceFromBodyWeAreOrbiting b)"
proof -
  from assms obtain b1 b3 where "b = initMatrix P b3"
    by (rule AstronomicalObject_SomeD)
  then show ?thesis by (simp add: initMatrix_def Let_def)
qed

lemma AstronomicalObject_origin:
  assumes "AstronomicalObject cfg (Some p) u = Some b" and "config_origin cfg = None"
    and "origin p = (0, 0, z)"
  shows "origin b = (0, 0, z - distanceFromBodyWeAreOrbiting b)"
proof -
  from assms(1) obtain b1 b3 where 1: "setAttributes cfg (Some p) blank = Some b1"
    and 3: "setRandomStartingOrbit u (Some p) (setOrigin (config_origin cfg) (Some p) b1) = Some b3"
    and b: "b = initMatrix (Some p) b3"
    by (rule AstronomicalObject_SomeD)
  note f3 = setRandomStartingOrbit_SomeD [OF 3]
  have "origin b = origin (setOrigin None (Some p) b1)"
    by (simp add: b initMatrix_fields f3 assms(2))
  moreover have "distanceFromBodyWeAreOrbiting b = distanceFromBodyWeAreOrbiting b1"
    by (simp add: b initMatrix_fields f3 setOrigin_fields)
  ultimately show ?thesis by (simp add: setOrigin_def assms(3))
qed

lemma position_col3: "position m = col3 m"
  by (rule mat4_components [of m]) (simp add: position_def lin3_def)

lemma position_nested:
  "position (mat4_translate (mat4_rotate (mat4_translate (mat4_rotate mat4_create A worldY)
       (0, 0, - dP)) B worldY) (0, 0, - d)) =
   vadd (position (mat4_translate (mat4_rotate mat4_create A worldY) (0, 0, - dP)))
        (rotateY (A + B) (Vec4 0 0 (- d) 0))"
  by (simp add: position_col3 mat4_create_def rotate_worldY lin3_def cos_add sin_add
        algebra_simps)

lemma rotateY_library:
  "rotateY a (Vec4 x y z 0) = transform (mat4_rotate mat4_create a worldY) (Vec4 x y z 0)"
  by (simp add: mat4_create_def rotate_worldY lin3_def)

lemma planet_first_frame:
  assumes s: "orbits s = None"
    and p0: "AstronomicalObject pcfg (Some s) up = Some pl0"
  shows "mat4_multiply (modelViewMatrix pl0) (orbitMatrix s pl0 oa) =
           mat4_translate (mat4_rotate mat4_create (cumulativeOrbitAngle pl0 + oa) worldY)
             (0, 0, - distanceFromBodyWeAreOrbiting pl0)"
proof -
  note f = AstronomicalObject_fields [OF p0]
  have m: "modelViewMatrix pl0 =
      mat4_translate (mat4_rotate mat4_create (cumulativeOrbitAngle pl0) worldY)
        (0, 0, - distanceFromBodyWeAreOrbiting pl0)"
    using AstronomicalObject_matrix [OF p0] s f(6) by simp
  have o: "orbitMatrix s pl0 oa =
      mat4_translate (mat4_rotate (mat4_translate mat4_create
        (0, 0, distanceFromBodyWeAreOrbiting pl0)) oa worldY)
        (0, 0, - distanceFromBodyWeAreOrbiting pl0)"
    using s f(3) by (simp add: orbitMatrix_def beforeOrbit_def Let_def)
  show ?thesis
    unfolding o multiply_translate multiply_rotate multiply_create
    unfolding m translate_translate_z
    by (simp add: translate_zero rotate_rotate_worldY)
qed

lemma moon_first_frame:
  assumes s: "origin s = (0, 0, 0)"
    and p0: "AstronomicalObject pcfg (Some s) up = Some pl0"
    and po: "config_origin pcfg = None" "config_orbits pcfg \<noteq> None"
    and m0: "AstronomicalObject mcfg (Some pl0) um = Some m0"
    and p1: "animate (Some s) r t pl0 = Some pl1"
  shows "mat4_multiply (modelViewMatrix m0) (orbitMatrix pl1 m0 oa) =
           mat4_translate
             (mat4_rotate
               (mat4_translate
                 (mat4_rotate mat4_create (cumulativeOrbitAngle pl1) worldY)
                 (0, 0, - distanceFromBodyWeAreOrbiting pl1))
               (cumulativeOrbitAngle m0 + oa) worldY)
             (0, 0, - distanceFromBodyWeAreOrbiting m0)"
proof -
  note fp = AstronomicalObject_fields [OF p0]
  note fm = AstronomicalObject_fields [OF m0]
  note st = animate_static [OF p1]
  have op0: "orbits pl0 \<noteq> None" using fp(2) po(2) by simp
  then have op1: "orbits pl1 \<noteq> None" using st(2) by simp
  have orig: "origin pl0 = (0, 0, - distanceFromBodyWeAreOrbiting pl0)"
    using AstronomicalObject_origin [OF p0 po(1) s] by simp
  have pl1: "pl1 = animateBy (Some s) (2 * pi * t / (r * orbitalPeriod pl0))
                (2 * pi * t / (r * spinPeriod pl0)) pl0"
    using animate_SomeD(3) [OF p1] .
  have last: "cumulativeOrbitAngle pl1 = lastOrbitAngle pl0 + lastOrbitAngle pl1"
    by (simp add: pl1 animateBy_angles fp(6))
  have m: "modelViewMatrix m0 =
      mat4_translate
        (mat4_rotate
          (mat4_translate (mat4_rotate mat4_create (lastOrbitAngle pl0) worldY)
             (0, 0, - distanceFromBodyWeAreOrbiting pl1))
          (cumulativeOrbitAngle m0) worldY)
        (0, 0, - distanceFromBodyWeAreOrbiting m0)"
    using AstronomicalObject_matrix [OF m0] op0 orig fm(6) st(7) by simp
  have u: "unspin m0 = mat4_create"
    using fm(3) by (simp add: unspin_first_frame)
  have "mat4_multiply (modelViewMatrix m0) (orbitMatrix pl1 m0 oa) =
          sevenSteps pl1 m0 oa (modelViewMatrix m0)"
    by (simp add: orbitMatrix_moon [OF op1] u multiply_sevenSteps multiply_create)
  also have "\<dots> = mat4_translate
             (mat4_rotate
               (mat4_translate
                 (mat4_rotate mat4_create (lastOrbitAngle pl0 + lastOrbitAngle pl1) worldY)
                 (0, 0, - distanceFromBodyWeAreOrbiting pl1))
               (cumulativeOrbitAngle m0 + oa) worldY)
             (0, 0, - distanceFromBodyWeAreOrbiting m0)"
    unfolding sevenSteps_def m translate_translate_z
    by (simp add: translate_zero rotate_rotate_worldY rotate_zero_worldY translate_translate_z)
  finally show ?thesis by (simp add: last)
qed

lemma first_frame_position:
  "position (modelViewMatrix (animateBy (Some p) oa sa b)) =
     position (mat4_multiply (modelViewMatrix b) (orbitMatrix p b oa))"
  by (simp only: animateBy_orbiting_matrix position_rotate)

lemma moon_position:
  assumes s: "orbits s = None" "origin s = (0, 0, 0)"
    and p0: "AstronomicalObject pcfg (Some s) up = Some pl0"
    and po: "config_origin pcfg = None" "config_orbits pcfg \<noteq> None"
    and m0: "AstronomicalObject mcfg (Some pl0) um = Some m0"
    and p1: "animate (Some s) r t pl0 = Some pl1"
    and m1: "animate (Some pl1) r t m0 = Some m1"
  shows "position (modelViewMatrix m1) =
           vadd (position (modelViewMatrix pl1))
             (rotateY (cumulativeOrbitAngle pl1 + cumulativeOrbitAngle m1) (orbitalOffset m1))"
proof -
  let ?dP = "2 * pi * t / (r * orbitalPeriod pl0)"
  let ?dM = "2 * pi * t / (r * orbitalPeriod m0)"
  have pl1: "pl1 = animateBy (Some s) ?dP (2 * pi * t / (r * spinPeriod pl0)) pl0"
    using animate_SomeD(3) [OF p1] .
  have m1': "m1 = animateBy (Some pl1) ?dM (2 * pi * t / (r * spinPeriod m0)) m0"
    using animate_SomeD(3) [OF m1] .
  have cp: "cumulativeOrbitAngle pl1 = cumulativeOrbitAngle pl0 + ?dP"
    and dp: "distanceFromBodyWeAreOrbiting pl1 = distanceFromBodyWeAreOrbiting pl0"
    by (simp_all add: pl1 animateBy_angles animateBy_static)
  have cm: "cumulativeOrbitAngle m1 = cumulativeOrbitAngle m0 + ?dM"
    and dm: "distanceFromBodyWeAreOrbiting m1 = distanceFromBodyWeAreOrbiting m0"
    by (simp_all add: m1' animateBy_angles animateBy_static)
  have "position (modelViewMatrix pl1) =
          position (mat4_multiply (modelViewMatrix pl0) (orbitMatrix s pl0 ?dP))"
    by (subst pl1) (rule first_frame_position)
  then have pp: "position (modelViewMatrix pl1) =
      position (mat4_translate (mat4_rotate mat4_create (cumulativeOrbitAngle pl1) worldY)
             (0, 0, - distanceFromBodyWeAreOrbiting pl1))"
    by (simp only: planet_first_frame [OF s(1) p0] cp dp)
  have "position (modelViewMatrix m1) =
          position (mat4_multiply (modelViewMatrix m0) (orbitMatrix pl1 m0 ?dM))"
    by (subst m1') (rule first_frame_position)
  then have "position (modelViewMatrix m1) =
      position (mat4_translate
             (mat4_rotate
               (mat4_translate
                 (mat4_rotate mat4_create (cumulativeOrbitAngle pl1) worldY)
                 (0, 0, - distanceFromBodyWeAreOrbiting pl1))
               (cumulativeOrbitAngle m1) worldY)
             (0, 0, - distanceFromBodyWeAreOrbiting m1))"
    by (simp only: moon_first_frame [OF s(2) p0 po m0 p1] cm dm)
  then show ?thesis
    by (simp only: position_nested pp orbitalOffset_def)
qed

lemma earth_config_fields:
  "config_origin earth_config = None" "config_orbits earth_config \<noteq> None"
  by (simp_all add: earth_config_def noConfig_def)

lemma theSun_origin: "origin theSun = (0, 0, 0)"
  by (simp add: example_defs constructor_defs)

lemma frame1_values:
  "cumulativeOrbitAngle earthAfterFrame1 = 5 * pi / 2"
  "cumulativeOrbitAngle moonAfterFrame1 = 4 * pi"
  "distanceFromBodyWeAreOrbiting earthAfterFrame1 = 2332.09"
  "distanceFromBodyWeAreOrbiting moonAfterFrame1 = 97.59"
  by (simp_all add: earthAfterFrame1_eq moonAfterFrame1_eq animateBy_angles animateBy_static
        example_phases)
     (simp_all add: example_defs constructor_defs)

lemma quarter_turns:
  "sin (5 * pi / 2) = 1" "cos (5 * pi / 2) = 0" "sin (13 * pi / 2) = 1" "cos (13 * pi / 2) = 0"
proof -
  have a: "5 * pi / 2 = pi / 2 + 2 * pi" and b: "13 * pi / 2 = pi / 2 + 6 * pi"
    by simp_all
  have s: "sin (pi / 2 + 2 * pi) = 1" "cos (pi / 2 + 2 * pi) = 0"
    "sin (pi / 2 + 6 * pi) = 1" "cos (pi / 2 + 6 * pi) = 0"
    unfolding sin_add cos_add by simp_all
  show "sin (5 * pi / 2) = 1" by (subst a) (rule s)
  show "cos (5 * pi / 2) = 0" by (subst a) (rule s)
  show "sin (13 * pi / 2) = 1" by (subst b) (rule s)
  show "cos (13 * pi / 2) = 0" by (subst b) (rule s)
qed

lemma frame1_positions:
  "position (modelViewMatrix earthAfterFrame1) = Vec4 (- 2332.09) 0 0 1"
  "position (modelViewMatrix moonAfterFrame1) = Vec4 (- 2429.68) 0 0 1"
proof -
  have "position (modelViewMatrix earthAfterFrame1) =
      position (mat4_translate (mat4_rotate mat4_create (cumulativeOrbitAngle earth + 0) worldY)
             (0, 0, - distanceFromBodyWeAreOrbiting earth))"
    by (simp only: earthAfterFrame1_eq first_frame_position
          planet_first_frame [OF example_roots(1) earth_built])
  then show e: "position (modelViewMatrix earthAfterFrame1) = Vec4 (- 2332.09) 0 0 1"
    by (simp add: example_phases position_col3 mat4_create_def rotate_worldY lin3_def
          quarter_turns)
       (simp add: example_defs constructor_defs)
  have "position (modelViewMatrix moonAfterFrame1) =
      vadd (position (modelViewMatrix earthAfterFrame1))
        (rotateY (cumulativeOrbitAngle earthAfterFrame1 + cumulativeOrbitAngle moonAfterFrame1)
           (orbitalOffset moonAfterFrame1))"
    by (rule moon_position [OF example_roots(1) theSun_origin earth_built earth_config_fields
          earthsMoon_built earthAfterFrame1_built moonAfterFrame1_built])
  then show "position (modelViewMatrix moonAfterFrame1) = Vec4 (- 2429.68) 0 0 1"
    by (simp add: e frame1_values orbitalOffset_def quarter_turns)
qed

section \<open>The frame after a pause\<close>

lemma orbitMatrix_zero:
  assumes "orbits p \<noteq> None \<longrightarrow> lastOrbitAngle p = 0"
  shows "orbitMatrix p b 0 = unspin b"
proof (cases "orbits p = None")
  case True
  then show ?thesis
    by (simp add: orbitMatrix_def unspin_def Let_def rotate_zero_worldY translate_translate_z
          translate_zero)
next
  case False
  with assms have "lastOrbitAngle p = 0" by simp
  with False show ?thesis
    by (simp add: orbitMatrix_moon sevenSteps_def rotate_zero_worldY translate_translate_z
          translate_zero rotate_rotate_worldY)
qed

lemma respin_unspin:
  "mat4_rotate (mat4_rotate (beforeOrbit b m) 1 (axisArray b))
     (if spinsClockwise b then - lastSpinAngle b - 0 else lastSpinAngle b + 0) worldY =
   (if isNotFirstAnimationFrame b then m
    else mat4_rotate (mat4_rotate m 1 (axisArray b))
           (if spinsClockwise b then - lastSpinAngle b else lastSpinAngle b) worldY)"
  using rotate_back [of "mat4_rotate m (lastSpinAngle b) worldY" "- 1" "axisArray b"]
    rotate_back [of "mat4_rotate m (- lastSpinAngle b) worldY" "- 1" "axisArray b"]
  by (simp add: beforeOrbit_def Let_def rotate_rotate_worldY rotate_zero_worldY)

lemma animate_zero_matrix:
  assumes a: "animate P r 0 b = Some b'"
    and p: "\<And>p. P = Some p \<Longrightarrow>
              isNotFirstAnimationFrame b \<and> (orbits p \<noteq> None \<longrightarrow> lastOrbitAngle p = 0)"
  shows "modelViewMatrix b' = modelViewMatrix b"
proof -
  from animate_SomeD(3) [OF a] have b': "b' = animateBy P 0 0 b" by simp
  show ?thesis
  proof (cases P)
    case None
    then show ?thesis by (simp add: b' animateBy_root_matrix rotate_zero_worldY)
  next
    case (Some q)
    from p [OF Some] have f: "isNotFirstAnimationFrame b"
      and z: "orbits q \<noteq> None \<longrightarrow> lastOrbitAngle q = 0" by simp_all
    have "modelViewMatrix b' =
        mat4_rotate (mat4_rotate (beforeOrbit b (modelViewMatrix b)) 1 (axisArray b))
          (if spinsClockwise b then - lastSpinAngle b - 0 else lastSpinAngle b + 0) worldY"
      unfolding b' Some animateBy_orbiting_matrix orbitMatrix_zero [OF z] multiply_unspin ..
    then show ?thesis by (simp only: respin_unspin f if_True)
  qed
qed

lemma animate_flag:
  assumes "animate P r t b = Some b'"
  shows "P \<noteq> None \<Longrightarrow> isNotFirstAnimationFrame b'"
    and "isNotFirstAnimationFrame b \<Longrightarrow> isNotFirstAnimationFrame b'"
  using animate_SomeD(3) [OF assms]
  by (auto simp: animateBy_def updateAttributes_def afterOrbit_def Let_def split: option.splits)

lemma animateEach_resume:
  assumes "animateEach [k..<length ss] r 0 ss = Some ss'"
    and "pastFirstFrame ss"
    and "\<forall>i<k. lastOrbitAngle (ss ! i) = 0"
  shows "length ss' = length ss \<and>
         (\<forall>i<length ss. modelViewMatrix (ss' ! i) = modelViewMatrix (ss ! i))"
  using assms
proof (induction "length ss - k" arbitrary: k ss)
  case 0
  then show ?case by simp
next
  case (Suc n)
  then have k: "k < length ss" by simp
  then have upt: "[k..<length ss] = k # [Suc k..<length ss]" by (rule upt_conv_Cons)
  from Suc.prems(1) obtain b1 where
    1: "animate (orbitedOf ss (ss ! k)) r 0 (ss ! k) = Some b1"
    and 2: "animateEach [Suc k..<length ss] r 0 (ss[k := b1]) = Some ss'"
    unfolding upt by (auto split: option.splits)
  let ?ss1 = "ss[k := b1]"
  have inv: "case orbits (ss ! i) of None \<Rightarrow> True
             | Some j \<Rightarrow> j < i \<and> isNotFirstAnimationFrame (ss ! i)" if "i < length ss" for i
    using Suc.prems(2) that by (simp add: pastFirstFrame_def)
  have m1: "modelViewMatrix b1 = modelViewMatrix (ss ! k)"
  proof (rule animate_zero_matrix [OF 1])
    fix p assume o: "orbitedOf ss (ss ! k) = Some p"
    then obtain j where j: "orbits (ss ! k) = Some j" "j < length ss" "p = ss ! j"
      by (auto simp: orbitedOf_def split: option.splits if_splits)
    from inv [OF k] j(1) have "j < k" and f: "isNotFirstAnimationFrame (ss ! k)" by simp_all
    with Suc.prems(3) j(3) have "lastOrbitAngle p = 0" by simp
    with f show "isNotFirstAnimationFrame (ss ! k) \<and>
        (orbits p \<noteq> None \<longrightarrow> lastOrbitAngle p = 0)" by simp
  qed
  have st: "orbits b1 = orbits (ss ! k)" using animate_static(2) [OF 1] .
  have fl: "isNotFirstAnimationFrame (ss ! k) \<Longrightarrow> isNotFirstAnimationFrame b1"
    using animate_flag(2) [OF 1] .
  have z1: "lastOrbitAngle b1 = 0" using animate_zero_elapsed(1) [OF 1] .
  have inv1: "pastFirstFrame ?ss1"
    unfolding pastFirstFrame_def
  proof (intro allI impI)
    fix i assume "i < length ?ss1"
    then have i: "i < length ss" by simp
    show "case orbits (?ss1 ! i) of None \<Rightarrow> True
          | Some j \<Rightarrow> j < i \<and> isNotFirstAnimationFrame (?ss1 ! i)"
    proof (cases "i = k")
      case True
      with inv [OF k] k st fl show ?thesis by (auto split: option.splits)
    next
      case False
      with inv [OF i] show ?thesis by (auto split: option.splits)
    qed
  qed
  have done1: "\<forall>i<Suc k. lastOrbitAngle (?ss1 ! i) = 0"
  proof (intro allI impI)
    fix i assume "i < Suc k"
    then show "lastOrbitAngle (?ss1 ! i) = 0"
      using Suc.prems(3) z1 k by (cases "i = k") simp_all
  qed
  have nn: "n = length ?ss1 - Suc k" using Suc.hyps(2) by simp
  from 2 have step: "animateEach [Suc k..<length ?ss1] r 0 ?ss1 = Some ss'" by simp
  from Suc.hyps(1) [OF nn step inv1 done1]
  have len: "length ss' = length ss"
    and same: "\<And>i. i < length ss \<Longrightarrow> modelViewMatrix (ss' ! i) = modelViewMatrix (?ss1 ! i)"
    by simp_all
  have "modelViewMatrix (?ss1 ! i) = modelViewMatrix (ss ! i)" if "i < length ss" for i
    using that m1 by (cases "i = k") simp_all
  with len same show ?case by simp
qed

lemma run_after_pause_matrix:
  assumes "timeLastFrame a = None" and "run False r now a = Some a''"
    and "pastFirstFrame (SolarSystem a)"
  shows "\<forall>i<length (SolarSystem a).
           modelViewMatrix (SolarSystem a'' ! i) = modelViewMatrix (SolarSystem a ! i)"
proof -
  from assms(1,2) obtain ss where
    ss: "animateEach [0..<length (SolarSystem a)] r 0 (SolarSystem a) = Some ss"
    and a'': "SolarSystem a'' = ss"
    by (auto simp: run_def App_animate_def millisecondsSinceLastFrame_def Let_def
          split: option.splits)
  from animateEach_resume [OF ss assms(3)] a'' show ?thesis by simp
qed

lemma scenarioApp_eq:
  "scenarioApp =
     \<lparr> timeLastFrame = Some 5000,
       SolarSystem = [animateBy None 0 0 scenarioSun,
                      animateBy (Some (animateBy None 0 0 scenarioSun)) 0 0 scenarioPlanet] \<rparr>"
  by (simp add: scenarioApp_def scenarioStart_def run_def App_animate_def
        millisecondsSinceLastFrame_def Let_def upt_rec orbitedOf_def animate_eq
        scenario_fields scenarioPlanet_periods)

lemma animateBy_flag: "isNotFirstAnimationFrame (animateBy (Some p) oa sa b)"
  by (simp add: animateBy_def updateAttributes_def afterOrbit_def Let_def)

lemma scenarioApp_fields:
  "timeLastFrame scenarioApp = Some 5000" "length (SolarSystem scenarioApp) = 2"
  "orbits (SolarSystem scenarioApp ! 0) = None"
  "orbits (SolarSystem scenarioApp ! 1) = Some 0"
  "isNotFirstAnimationFrame (SolarSystem scenarioApp ! 1)"
  "orbitalPeriod (SolarSystem scenarioApp ! 0) = 1" "spinPeriod (SolarSystem scenarioApp ! 0) = 1"
  "orbitalPeriod (SolarSystem scenarioApp ! 1) = 10" "spinPeriod (SolarSystem scenarioApp ! 1) = 2"
  by (simp_all add: scenarioApp_eq animateBy_static scenario_fields scenarioPlanet_periods
        animateBy_flag)

lemma scenarioApp_pastFirstFrame: "pastFirstFrame (SolarSystem scenarioApp)"
  unfolding pastFirstFrame_def
proof (intro allI impI)
  fix i assume "i < length (SolarSystem scenarioApp)"
  then have "i = 0 \<or> i = 1" by (auto simp: scenarioApp_fields)
  then show "case orbits (SolarSystem scenarioApp ! i) of None \<Rightarrow> True
             | Some j \<Rightarrow> j < i \<and> isNotFirstAnimationFrame (SolarSystem scenarioApp ! i)"
    using scenarioApp_fields(3,4,5) by auto
qed

lemma scenarioApp_resume:
  "run False 1000 5048 (scenarioApp\<lparr> timeLastFrame := None \<rparr>) = Some scenarioResumed"
proof -
  obtain s p where ss: "SolarSystem scenarioApp = [s, p]"
    by (simp add: scenarioApp_eq)
  with scenarioApp_fields have f: "orbits s = None" "orbits p = Some 0"
    "orbitalPeriod s = 1" "spinPeriod s = 1" "orbitalPeriod p = 10" "spinPeriod p = 2"
    by simp_all
  have "run False 1000 5048 (scenarioApp\<lparr> timeLastFrame := None \<rparr>) \<noteq> None"
    by (simp add: run_def App_animate_def millisecondsSinceLastFrame_def Let_def ss upt_rec
          orbitedOf_def animate_eq f animateBy_static)
  then show ?thesis by (auto simp: scenarioResumed_def)
qed

lemma earthMoved_built: "animate (Some theSun) 1000 16 earth = Some earthMoved"
  by (simp add: earthMoved_def animate_eq example_periods)

lemma moonMoved_built: "animate (Some earthMoved) 1000 16 earthsMoon = Some moonMoved"
  by (simp add: moonMoved_def animate_eq example_periods)

lemma moved_angles:
  "cumulativeOrbitAngle earthMoved =
     cumulativeOrbitAngle earth + 2 * pi * 16 / (1000 * orbitalPeriod earth)"
  "cumulativeOrbitAngle moonMoved =
     cumulativeOrbitAngle earthsMoon + 2 * pi * 16 / (1000 * orbitalPeriod earthsMoon)"
proof -
  show "cumulativeOrbitAngle earthMoved =
     cumulativeOrbitAngle earth + 2 * pi * 16 / (1000 * orbitalPeriod earth)"
    by (subst animate_SomeD(3) [OF earthMoved_built]) (rule animateBy_angles(2))
  show "cumulativeOrbitAngle moonMoved =
     cumulativeOrbitAngle earthsMoon + 2 * pi * 16 / (1000 * orbitalPeriod earthsMoon)"
    by (subst animate_SomeD(3) [OF moonMoved_built]) (rule animateBy_angles(2))
qed

lemma orbitMatrix_later_frame:
  assumes "orbits p \<noteq> None" and "isNotFirstAnimationFrame b"
  shows "orbitMatrix p b oa =
           sevenSteps p b oa
             (mat4_rotate
               (mat4_rotate mat4_create
                  (if spinsClockwise b then lastSpinAngle b else - lastSpinAngle b) worldY)
               (- 1) (axisArray b))"
    and "mat4_multiply (modelViewMatrix b) (orbitMatrix p b oa) =
           sevenSteps p b oa
             (mat4_rotate
               (mat4_rotate (modelViewMatrix b)
                  (if spinsClockwise b then lastSpinAngle b else - lastSpinAngle b) worldY)
               (- 1) (axisArray b))"
proof -
  have u: "unspin b =
      mat4_rotate
        (mat4_rotate mat4_create
           (if spinsClockwise b then lastSpinAngle b else - lastSpinAngle b) worldY)
        (- 1) (axisArray b)"
    using assms(2) by (simp add: unspin_def beforeOrbit_def Let_def)
  have v: "beforeOrbit b (modelViewMatrix b) =
      mat4_rotate
        (mat4_rotate (modelViewMatrix b)
           (if spinsClockwise b then lastSpinAngle b else - lastSpinAngle b) worldY)
        (- 1) (axisArray b)"
    using assms(2) by (simp add: beforeOrbit_def Let_def)
  show "orbitMatrix p b oa =
           sevenSteps p b oa
             (mat4_rotate
               (mat4_rotate mat4_create
                  (if spinsClockwise b then lastSpinAngle b else - lastSpinAngle b) worldY)
               (- 1) (axisArray b))"
    unfolding orbitMatrix_moon [OF assms(1)] u ..
  show "mat4_multiply (modelViewMatrix b) (orbitMatrix p b oa) =
           sevenSteps p b oa
             (mat4_rotate
               (mat4_rotate (modelViewMatrix b)
                  (if spinsClockwise b then lastSpinAngle b else - lastSpinAngle b) worldY)
               (- 1) (axisArray b))"
    unfolding orbitMatrix_moon [OF assms(1)] multiply_sevenSteps multiply_unspin v ..
qed

lemma orbitMatrix_first_frame:
  assumes "orbits p \<noteq> None" and "\<not> isNotFirstAnimationFrame b"
  shows "orbitMatrix p b oa = sevenSteps p b oa mat4_create"
    and "mat4_multiply (modelViewMatrix b) (orbitMatrix p b oa) =
           sevenSteps p b oa (modelViewMatrix b)"
proof -
  have v: "beforeOrbit b (modelViewMatrix b) = modelViewMatrix b"
    using assms(2) by (simp add: beforeOrbit_def)
  show "orbitMatrix p b oa = sevenSteps p b oa mat4_create"
    unfolding orbitMatrix_moon [OF assms(1)] unspin_first_frame [OF assms(2)] ..
  show "mat4_multiply (modelViewMatrix b) (orbitMatrix p b oa) =
           sevenSteps p b oa (modelViewMatrix b)"
    unfolding orbitMatrix_moon [OF assms(1)] multiply_sevenSteps multiply_unspin v ..
qed
section \<open>The claims\<close>

text \<open>
  C1. For every object, a call to \<open>animate\<close> with \<open>r\<close> milliseconds per day and \<open>t\<close>
  milliseconds since the last frame computes the orbit amount
  \<open>2 * pi * t / (r * orbitalPeriod)\<close> and the spin amount \<open>2 * pi * t / (r * spinPeriod)\<close>, and
  goes on with these two values; the first becomes \<open>lastOrbitAngle\<close>. With an orbital
  period of 10, a spin period of 2, \<open>r = 1000\<close> and \<open>t = 500\<close> the two amounts are \<open>pi / 10\<close>
  and \<open>pi / 2\<close>. The divisors are taken to be non-zero: otherwise the quotient is not a
  finite number.
\<close>
theorem C1_angle_deltas:
  assumes "r * orbitalPeriod b \<noteq> 0" and "r * spinPeriod b \<noteq> 0"
  shows "calculatePortionOf (orbitalPeriod b) t r = Some (2 * pi * t / (r * orbitalPeriod b)) \<and>
         calculatePortionOf (spinPeriod b) t r = Some (2 * pi * t / (r * spinPeriod b)) \<and>
         animate orbited r t b =
           Some (animateBy orbited (2 * pi * t / (r * orbitalPeriod b))
                   (2 * pi * t / (r * spinPeriod b)) b) \<and>
         (\<exists>b'. animate orbited r t b = Some b' \<and>
               lastOrbitAngle b' = 2 * pi * t / (r * orbitalPeriod b)) \<and>
         (orbitalPeriod b = 10 \<and> spinPeriod b = 2 \<and> r = 1000 \<and> t = 500 \<longrightarrow>
            animate orbited r t b = Some (animateBy orbited (pi / 10) (pi / 2) b))"
  using assms by (simp add: animate_eq calculatePortionOf_eq animateBy_angles)

theorem C1_angle_deltas_witness:
  "(1000::real) * orbitalPeriod scenarioPlanet \<noteq> 0 \<and>
   (1000::real) * spinPeriod scenarioPlanet \<noteq> 0 \<and>
   orbitalPeriod scenarioPlanet = 10 \<and> spinPeriod scenarioPlanet = 2 \<and>
   calculatePortionOf (orbitalPeriod scenarioPlanet) 500 1000 = Some (pi / 10) \<and>
   calculatePortionOf (spinPeriod scenarioPlanet) 500 1000 = Some (pi / 2) \<and>
   animate (Some scenarioSun) 1000 500 scenarioPlanet =
     Some (animateBy (Some scenarioSun) (pi / 10) (pi / 2) scenarioPlanet)"
  using C1_angle_deltas [of 1000 scenarioPlanet 500 "Some scenarioSun"]
  by (simp add: scenarioPlanet_periods)

text \<open>
  C2, as the claim states it, fails from an object's second frame on: the seven steps
  are then applied to the un-spin transform, not to the identity. For the earth's moon
  in the second frame of the driver the matrix multiplied into the model-view matrix
  differs from the seven steps applied to the identity.
\<close>
theorem C2_second_frame_counterexample:
  "animate (Some theSun) 1000 0 earth = Some earthAfterFrame1 \<and>
   animate (Some earthAfterFrame1) 1000 0 earthsMoon = Some moonAfterFrame1 \<and>
   animate (Some theSun) 1000 16 earthAfterFrame1 = Some earthAfterFrame2 \<and>
   orbits earthAfterFrame2 \<noteq> None \<and>
   orbitMatrix earthAfterFrame2 moonAfterFrame1 (2 * pi * 16 / (1000 * 27.3)) \<noteq>
     sevenSteps earthAfterFrame2 moonAfterFrame1 (2 * pi * 16 / (1000 * 27.3)) mat4_create"
proof -
  let ?oa = "2 * pi * 16 / (1000 * 27.3)"
  have o: "orbits earthAfterFrame2 \<noteq> None" by (simp add: example_frame_orbits)
  have "col1 (orbitMatrix earthAfterFrame2 moonAfterFrame1 ?oa) = col1 (unspin moonAfterFrame1)"
    by (simp only: orbitMatrix_moon [OF o] col1_sevenSteps)
  moreover have "col1 (sevenSteps earthAfterFrame2 moonAfterFrame1 ?oa mat4_create) = Vec4 0 1 0 0"
    by (simp only: col1_sevenSteps) (simp add: mat4_create_def)
  ultimately have "orbitMatrix earthAfterFrame2 moonAfterFrame1 ?oa \<noteq>
      sevenSteps earthAfterFrame2 moonAfterFrame1 ?oa mat4_create"
    using unspin_moonAfterFrame1 by auto
  with earthAfterFrame1_built moonAfterFrame1_built earthAfterFrame2_built o
  show ?thesis by simp
qed

text \<open>
  C2, amended. For every object \<open>b\<close> whose orbited object \<open>p\<close> itself orbits something,
  one call of \<open>animate\<close> builds the orbit transform as the seven steps, in the order of
  the claim, applied to the un-spin transform of the frame. On the first frame of \<open>b\<close>
  that is the identity. On every later frame it is the identity rotated about the world
  Y axis by \<open>lastSpinAngle\<close> when \<open>b\<close> spins clockwise and by \<open>- lastSpinAngle\<close> when it
  does not, and then by -1 radian about \<open>axisArray\<close>. Right-multiplied into the
  model-view matrix of \<open>b\<close> this is the seven steps applied to the model-view matrix
  (first frame) or to the model-view matrix after the same two un-spin rotations (later
  frames); the two re-spin rotations follow.
\<close>
theorem C2_moon_orbit_transform:
  assumes "orbits p \<noteq> None"
  shows "(\<not> isNotFirstAnimationFrame b \<longrightarrow>
            orbitMatrix p b orbitDelta = sevenSteps p b orbitDelta mat4_create \<and>
            mat4_multiply (modelViewMatrix b) (orbitMatrix p b orbitDelta) =
              sevenSteps p b orbitDelta (modelViewMatrix b)) \<and>
         (isNotFirstAnimationFrame b \<longrightarrow>
            orbitMatrix p b orbitDelta =
              sevenSteps p b orbitDelta
                (mat4_rotate
                  (mat4_rotate mat4_create
                     (if spinsClockwise b then lastSpinAngle b else - lastSpinAngle b) worldY)
                  (- 1) (axisArray b)) \<and>
            mat4_multiply (modelViewMatrix b) (orbitMatrix p b orbitDelta) =
              sevenSteps p b orbitDelta
                (mat4_rotate
                  (mat4_rotate (modelViewMatrix b)
                     (if spinsClockwise b then lastSpinAngle b else - lastSpinAngle b) worldY)
                  (- 1) (axisArray b))) \<and>
         orbitMatrix p b orbitDelta = sevenSteps p b orbitDelta (unspin b) \<and>
         mat4_multiply (modelViewMatrix b) (orbitMatrix p b orbitDelta) =
           sevenSteps p b orbitDelta (beforeOrbit b (modelViewMatrix b)) \<and>
         modelViewMatrix (animateBy (Some p) orbitDelta spinDelta b) =
           mat4_rotate
             (mat4_rotate
               (mat4_multiply (modelViewMatrix b) (orbitMatrix p b orbitDelta))
               1 (axisArray b))
             (if spinsClockwise b then - lastSpinAngle b - spinDelta
              else lastSpinAngle b + spinDelta) worldY"
proof -
  have u: "orbitMatrix p b orbitDelta = sevenSteps p b orbitDelta (unspin b)"
    using assms by (rule orbitMatrix_moon)
  have m: "mat4_multiply (modelViewMatrix b) (orbitMatrix p b orbitDelta) =
      sevenSteps p b orbitDelta (beforeOrbit b (modelViewMatrix b))"
    unfolding u multiply_sevenSteps multiply_unspin ..
  have a: "modelViewMatrix (animateBy (Some p) orbitDelta spinDelta b) =
           mat4_rotate
             (mat4_rotate
               (mat4_multiply (modelViewMatrix b) (orbitMatrix p b orbitDelta))
               1 (axisArray b))
             (if spinsClockwise b then - lastSpinAngle b - spinDelta
              else lastSpinAngle b + spinDelta) worldY"
    by (rule animateBy_orbiting_matrix)
  show ?thesis
  proof (cases "isNotFirstAnimationFrame b")
    case True
    from orbitMatrix_later_frame [OF assms True, of orbitDelta] True u m a
    show ?thesis by blast
  next
    case False
    from orbitMatrix_first_frame [OF assms False, of orbitDelta] False u m a
    show ?thesis by blast
  qed
qed

theorem C2_moon_orbit_transform_witness:
  "orbits earthAfterFrame1 \<noteq> None \<and> \<not> isNotFirstAnimationFrame earthsMoon \<and>
   orbitMatrix earthAfterFrame1 earthsMoon 0 =
     sevenSteps earthAfterFrame1 earthsMoon 0 mat4_create \<and>
   mat4_multiply (modelViewMatrix earthsMoon) (orbitMatrix earthAfterFrame1 earthsMoon 0) =
     sevenSteps earthAfterFrame1 earthsMoon 0 (modelViewMatrix earthsMoon) \<and>
   orbits earthAfterFrame2 \<noteq> None \<and> isNotFirstAnimationFrame moonAfterFrame1 \<and>
   orbitMatrix earthAfterFrame2 moonAfterFrame1 (2 * pi * 16 / (1000 * 27.3)) =
     sevenSteps earthAfterFrame2 moonAfterFrame1 (2 * pi * 16 / (1000 * 27.3))
       (mat4_rotate
         (mat4_rotate mat4_create
            (if spinsClockwise moonAfterFrame1 then lastSpinAngle moonAfterFrame1
             else - lastSpinAngle moonAfterFrame1) worldY)
         (- 1) (axisArray moonAfterFrame1)) \<and>
   mat4_multiply (modelViewMatrix moonAfterFrame1)
       (orbitMatrix earthAfterFrame2 moonAfterFrame1 (2 * pi * 16 / (1000 * 27.3))) =
     sevenSteps earthAfterFrame2 moonAfterFrame1 (2 * pi * 16 / (1000 * 27.3))
       (mat4_rotate
         (mat4_rotate (modelViewMatrix moonAfterFrame1)
            (if spinsClockwise moonAfterFrame1 then lastSpinAngle moonAfterFrame1
             else - lastSpinAngle moonAfterFrame1) worldY)
         (- 1) (axisArray moonAfterFrame1)) \<and>
   modelViewMatrix
       (animateBy (Some earthAfterFrame2) (2 * pi * 16 / (1000 * 27.3))
          (2 * pi * 16 / (1000 * 27.3)) moonAfterFrame1) =
     mat4_rotate
       (mat4_rotate
         (mat4_multiply (modelViewMatrix moonAfterFrame1)
            (orbitMatrix earthAfterFrame2 moonAfterFrame1 (2 * pi * 16 / (1000 * 27.3))))
         1 (axisArray moonAfterFrame1))
       (if spinsClockwise moonAfterFrame1
        then - lastSpinAngle moonAfterFrame1 - 2 * pi * 16 / (1000 * 27.3)
        else lastSpinAngle moonAfterFrame1 + 2 * pi * 16 / (1000 * 27.3)) worldY"
proof -
  have o1: "orbits earthAfterFrame1 \<noteq> None" by (simp add: example_frame_orbits)
  have f1: "\<not> isNotFirstAnimationFrame earthsMoon" by (simp add: example_frame_orbits)
  have o2: "orbits earthAfterFrame2 \<noteq> None" by (simp add: example_frame_orbits)
  have f2: "isNotFirstAnimationFrame moonAfterFrame1" by (rule moonAfterFrame1_fields(1))
  from C2_moon_orbit_transform [OF o1, of earthsMoon 0 0]
    C2_moon_orbit_transform [OF o2, of moonAfterFrame1 "2 * pi * 16 / (1000 * 27.3)"
      "2 * pi * 16 / (1000 * 27.3)"]
    o1 f1 o2 f2
  show ?thesis by blast
qed

text \<open>
  C3, as the claim states it, fails for the earth and its moon after their first frame:
  the moon is not at the earth's position plus its orbital offset rotated by the moon's
  own cumulative orbit angle, whichever way along the Z axis the offset points.
\<close>
theorem C3_moon_offset_counterexample:
  "animate (Some theSun) 1000 0 earth = Some earthAfterFrame1 \<and>
   animate (Some earthAfterFrame1) 1000 0 earthsMoon = Some moonAfterFrame1 \<and>
   position (modelViewMatrix moonAfterFrame1) = Vec4 (- 2429.68) 0 0 1 \<and>
   vadd (position (modelViewMatrix earthAfterFrame1))
     (rotateY (cumulativeOrbitAngle moonAfterFrame1) (orbitalOffset moonAfterFrame1)) =
     Vec4 (- 2332.09) 0 (- 97.59) 1 \<and>
   position (modelViewMatrix moonAfterFrame1) \<noteq>
     vadd (position (modelViewMatrix earthAfterFrame1))
       (rotateY (cumulativeOrbitAngle moonAfterFrame1) (orbitalOffset moonAfterFrame1)) \<and>
   position (modelViewMatrix moonAfterFrame1) \<noteq>
     vadd (position (modelViewMatrix earthAfterFrame1))
       (rotateY (cumulativeOrbitAngle moonAfterFrame1)
          (Vec4 0 0 (distanceFromBodyWeAreOrbiting moonAfterFrame1) 0))"
  by (simp add: earthAfterFrame1_built moonAfterFrame1_built frame1_positions frame1_values
        orbitalOffset_def)

text \<open>
  C3, amended. For a moon built on a planet that was built on a root object placed at
  the origin, where the planet's config gives an orbits reference and no explicit origin
  (so that the constructor derives the planet's origin from the root's): after one call
  of \<open>animate\<close> on the planet and then one on the moon, with the same rate and elapsed
  time, the world position of the moon is, within tolerance, the new world position of
  the planet plus the moon's orbital offset (0, 0, -distanceFromBodyWeAreOrbiting)
  rotated about the world Y axis by the sum of the planet's and the moon's updated
  cumulative orbit angles. In real arithmetic, which the numbers here are, the tolerance
  is zero: the two sides are equal.
\<close>
theorem C3_moon_world_position:
  assumes "orbits s = None" and "origin s = (0, 0, 0)"
    and "AstronomicalObject pcfg (Some s) up = Some pl0"
    and "config_origin pcfg = None" and "config_orbits pcfg \<noteq> None"
    and "AstronomicalObject mcfg (Some pl0) um = Some m0"
    and "animate (Some s) r t pl0 = Some pl1"
    and "animate (Some pl1) r t m0 = Some m1"
  shows "position (modelViewMatrix m1) =
           vadd (position (modelViewMatrix pl1))
             (rotateY (cumulativeOrbitAngle pl1 + cumulativeOrbitAngle m1) (orbitalOffset m1))"
  using assms by (rule moon_position)

theorem C3_moon_world_position_witness:
  "orbits theSun = None \<and> origin theSun = (0, 0, 0) \<and>
   AstronomicalObject earth_config (Some theSun) (4 / 5) = Some earth \<and>
   config_origin earth_config = None \<and> config_orbits earth_config \<noteq> None \<and>
   AstronomicalObject earthsMoon_config (Some earth) (1 / 2) = Some earthsMoon \<and>
   animate (Some theSun) 1000 0 earth = Some earthAfterFrame1 \<and>
   animate (Some earthAfterFrame1) 1000 0 earthsMoon = Some moonAfterFrame1 \<and>
   position (modelViewMatrix moonAfterFrame1) =
     vadd (position (modelViewMatrix earthAfterFrame1))
       (rotateY (cumulativeOrbitAngle earthAfterFrame1 + cumulativeOrbitAngle moonAfterFrame1)
          (orbitalOffset moonAfterFrame1)) \<and>
   animate (Some theSun) 1000 16 earth = Some earthMoved \<and>
   animate (Some earthMoved) 1000 16 earthsMoon = Some moonMoved \<and>
   cumulativeOrbitAngle earthMoved =
     cumulativeOrbitAngle earth + 2 * pi * 16 / (1000 * orbitalPeriod earth) \<and>
   cumulativeOrbitAngle moonMoved =
     cumulativeOrbitAngle earthsMoon + 2 * pi * 16 / (1000 * orbitalPeriod earthsMoon) \<and>
   position (modelViewMatrix moonMoved) =
     vadd (position (modelViewMatrix earthMoved))
       (rotateY (cumulativeOrbitAngle earthMoved + cumulativeOrbitAngle moonMoved)
          (orbitalOffset moonMoved))"
  using C3_moon_world_position [OF example_roots(1) theSun_origin earth_built
          earth_config_fields earthsMoon_built earthAfterFrame1_built moonAfterFrame1_built]
    C3_moon_world_position [OF example_roots(1) theSun_origin earth_built
          earth_config_fields earthsMoon_built earthMoved_built moonMoved_built]
    example_roots(1) theSun_origin earth_built earth_config_fields earthsMoon_built
    earthAfterFrame1_built moonAfterFrame1_built earthMoved_built moonMoved_built moved_angles
  by blast

text \<open>
  C4. For every object, orbiting or not, a call to \<open>animate\<close> that computes the amounts
  \<open>orbitDelta\<close> and \<open>spinDelta\<close> returns, and it assigns \<open>orbitDelta\<close> to \<open>lastOrbitAngle\<close>,
  adds \<open>orbitDelta\<close> to \<open>cumulativeOrbitAngle\<close> and adds \<open>spinDelta\<close> to \<open>lastSpinAngle\<close>; the
  other angle fields, \<open>axis\<close> and \<open>axisArray\<close>, keep their values.
\<close>
theorem C4_running_state:
  assumes "calculatePortionOf (orbitalPeriod b) t r = Some orbitDelta"
    and "calculatePortionOf (spinPeriod b) t r = Some spinDelta"
  shows "\<exists>b'. animate orbited r t b = Some b' \<and>
              lastOrbitAngle b' = orbitDelta \<and>
              cumulativeOrbitAngle b' = cumulativeOrbitAngle b + orbitDelta \<and>
              lastSpinAngle b' = lastSpinAngle b + spinDelta \<and>
              axis b' = axis b \<and> axisArray b' = axisArray b"
  using assms by (simp add: animate_def animateBy_angles animateBy_static)

theorem C4_running_state_witness:
  "calculatePortionOf (orbitalPeriod scenarioPlanet) 500 1000 = Some (pi / 10) \<and>
   calculatePortionOf (spinPeriod scenarioPlanet) 500 1000 = Some (pi / 2) \<and>
   (\<exists>b'. animate (Some scenarioSun) 1000 500 scenarioPlanet = Some b' \<and>
         lastOrbitAngle b' = pi / 10 \<and>
         cumulativeOrbitAngle b' = cumulativeOrbitAngle scenarioPlanet + pi / 10 \<and>
         lastSpinAngle b' = lastSpinAngle scenarioPlanet + pi / 2 \<and>
         axis b' = axis scenarioPlanet \<and> axisArray b' = axisArray scenarioPlanet)"
proof -
  have o: "calculatePortionOf (orbitalPeriod scenarioPlanet) 500 1000 = Some (pi / 10)"
    by (simp add: scenarioPlanet_periods calculatePortionOf_def)
  have s: "calculatePortionOf (spinPeriod scenarioPlanet) 500 1000 = Some (pi / 2)"
    by (simp add: scenarioPlanet_periods calculatePortionOf_def)
  from C4_running_state [OF o s, of "Some scenarioSun"] o s show ?thesis by simp
qed

text \<open>
  C5. For every object, after \<open>N\<close> successive calls of \<open>animate\<close>, each with the same
  milliseconds per day \<open>r\<close> and the same elapsed time \<open>t\<close> (the orbited object may be in a
  different state at each call), the calls all return and \<open>cumulativeOrbitAngle\<close> is the
  value it started from, which for a new object is the phase the constructor set, plus
  \<open>N * (2 * pi * t / (r * orbitalPeriod))\<close>. In real arithmetic the equality is exact.
\<close>
theorem C5_cumulative_orbit_angle:
  assumes "r * orbitalPeriod b \<noteq> 0" and "r * spinPeriod b \<noteq> 0"
  shows "\<exists>b'. animateCalls (map (\<lambda>p. (p, r, t)) ps) b = Some b' \<and>
              cumulativeOrbitAngle b' =
                cumulativeOrbitAngle b + real (length ps) * (2 * pi * t / (r * orbitalPeriod b))"
  using animateCalls_constant [OF assms, of t ps] by blast

theorem C5_cumulative_orbit_angle_witness:
  "(1000::real) * orbitalPeriod scenarioPlanet \<noteq> 0 \<and>
   (1000::real) * spinPeriod scenarioPlanet \<noteq> 0 \<and>
   (\<exists>b'. animateCalls [(Some scenarioSun, 1000, 500), (Some scenarioSun, 1000, 500),
                         (Some scenarioSun, 1000, 500)] scenarioPlanet = Some b' \<and>
         cumulativeOrbitAngle b' = 4 * pi + 3 * (pi / 10))"
  using C5_cumulative_orbit_angle [of 1000 scenarioPlanet 500
          "[Some scenarioSun, Some scenarioSun, Some scenarioSun]"]
  by (simp add: scenarioPlanet_periods example_phases)

text \<open>
  C6. Any number of calls of \<open>run\<close> while paused return and leave the registry as it is:
  every object keeps its model-view matrix and its three running angles. After at least
  one such call, the next call of \<open>millisecondsSinceLastFrame\<close> computes 0 elapsed
  milliseconds whatever the clock shows, and the frame that \<open>run\<close> animates then leaves
  \<open>cumulativeOrbitAngle\<close> and \<open>lastSpinAngle\<close> of every object where they were; once the
  registry is past its first frame, it leaves every model-view matrix where it was too,
  the un-spin and re-spin rotations cancelling in real arithmetic.
\<close>
theorem C6_pause:
  assumes "\<forall>f\<in>set frames. fst f"
  shows "\<exists>a'. runs frames a = Some a' \<and> SolarSystem a' = SolarSystem a \<and>
              (frames \<noteq> [] \<longrightarrow>
                 fst (millisecondsSinceLastFrame now a') = 0 \<and>
                 (\<forall>a''. run False r now a' = Some a'' \<longrightarrow>
                    length (SolarSystem a'') = length (SolarSystem a) \<and>
                    (\<forall>i<length (SolarSystem a).
                       cumulativeOrbitAngle (SolarSystem a'' ! i) =
                         cumulativeOrbitAngle (SolarSystem a ! i) \<and>
                       lastSpinAngle (SolarSystem a'' ! i) =
                         lastSpinAngle (SolarSystem a ! i) \<and>
                       (pastFirstFrame (SolarSystem a) \<longrightarrow>
                          modelViewMatrix (SolarSystem a'' ! i) =
                            modelViewMatrix (SolarSystem a ! i)))))"
proof -
  from runs_paused [OF assms, of a] obtain a' where
    a': "runs frames a = Some a'" "SolarSystem a' = SolarSystem a"
      "frames \<noteq> [] \<longrightarrow> timeLastFrame a' = None"
    by blast
  have "fst (millisecondsSinceLastFrame now a') = 0" if "frames \<noteq> []"
    using that a'(3) by (simp add: elapsed_after_pause)
  moreover have "length (SolarSystem a'') = length (SolarSystem a) \<and>
      (\<forall>i<length (SolarSystem a).
         cumulativeOrbitAngle (SolarSystem a'' ! i) = cumulativeOrbitAngle (SolarSystem a ! i) \<and>
         lastSpinAngle (SolarSystem a'' ! i) = lastSpinAngle (SolarSystem a ! i) \<and>
         (pastFirstFrame (SolarSystem a) \<longrightarrow>
            modelViewMatrix (SolarSystem a'' ! i) = modelViewMatrix (SolarSystem a ! i)))"
    if "frames \<noteq> []" and "run False r now a' = Some a''" for a''
  proof -
    from that(1) a'(3) have t: "timeLastFrame a' = None" by simp
    from run_after_pause [OF t that(2)] run_after_pause_matrix [OF t that(2)] a'(2)
    show ?thesis by simp
  qed
  ultimately show ?thesis using a'(1,2) by blast
qed

theorem C6_pause_witness:
  "fst (True, 1000 :: real, 5016 :: int) \<and> fst (True, 1000 :: real, 5032 :: int) \<and>
   runs [(True, 1000, 5016), (True, 1000, 5032)] scenarioApp =
     Some (scenarioApp\<lparr> timeLastFrame := None \<rparr>) \<and>
   SolarSystem (scenarioApp\<lparr> timeLastFrame := None \<rparr>) = SolarSystem scenarioApp \<and>
   fst (millisecondsSinceLastFrame 5048 (scenarioApp\<lparr> timeLastFrame := None \<rparr>)) = 0 \<and>
   run False 1000 5048 (scenarioApp\<lparr> timeLastFrame := None \<rparr>) = Some scenarioResumed \<and>
   pastFirstFrame (SolarSystem scenarioApp) \<and>
   length (SolarSystem scenarioResumed) = 2 \<and>
   cumulativeOrbitAngle (SolarSystem scenarioResumed ! 1) =
     cumulativeOrbitAngle (SolarSystem scenarioApp ! 1) \<and>
   lastSpinAngle (SolarSystem scenarioResumed ! 1) =
     lastSpinAngle (SolarSystem scenarioApp ! 1) \<and>
   modelViewMatrix (SolarSystem scenarioResumed ! 1) =
     modelViewMatrix (SolarSystem scenarioApp ! 1)"
proof -
  let ?frames = "[(True, 1000 :: real, 5016 :: int), (True, 1000, 5032)]"
  let ?paused = "scenarioApp\<lparr> timeLastFrame := None \<rparr>"
  have p: "\<forall>f\<in>set ?frames. fst f" by simp
  have r: "runs ?frames scenarioApp = Some ?paused" by (simp add: run_def)
  from C6_pause [OF p, of scenarioApp 5048 1000] r
  have e: "fst (millisecondsSinceLastFrame 5048 ?paused) = 0"
    and later: "\<And>a''. run False 1000 5048 ?paused = Some a'' \<Longrightarrow>
       length (SolarSystem a'') = length (SolarSystem scenarioApp) \<and>
       (\<forall>i<length (SolarSystem scenarioApp).
           cumulativeOrbitAngle (SolarSystem a'' ! i) =
             cumulativeOrbitAngle (SolarSystem scenarioApp ! i) \<and>
           lastSpinAngle (SolarSystem a'' ! i) = lastSpinAngle (SolarSystem scenarioApp ! i) \<and>
           (pastFirstFrame (SolarSystem scenarioApp) \<longrightarrow>
              modelViewMatrix (SolarSystem a'' ! i) =
                modelViewMatrix (SolarSystem scenarioApp ! i)))"
    by simp_all
  note l = later [OF scenarioApp_resume]
  from l have len: "length (SolarSystem scenarioResumed) = 2"
    by (simp add: scenarioApp_fields)
  from l [THEN conjunct2, THEN spec, of 1] scenarioApp_pastFirstFrame
  have "cumulativeOrbitAngle (SolarSystem scenarioResumed ! 1) =
          cumulativeOrbitAngle (SolarSystem scenarioApp ! 1) \<and>
        lastSpinAngle (SolarSystem scenarioResumed ! 1) =
          lastSpinAngle (SolarSystem scenarioApp ! 1) \<and>
        modelViewMatrix (SolarSystem scenarioResumed ! 1) =
          modelViewMatrix (SolarSystem scenarioApp ! 1)"
    by (simp add: scenarioApp_fields)
  with r e scenarioApp_resume scenarioApp_pastFirstFrame len show ?thesis by simp
qed

text \<open>
  C7. For every config named Saturn's Rings and every orbited object \<open>p\<close>, the constructor
  returns an object whose \<open>distanceFromBodyWeAreOrbiting\<close> is 0 and whose two periods are
  those of \<open>p\<close>; and after any calls of \<open>animate\<close> on the rings and on \<open>p\<close> the distance
  is still 0 and the periods are still those of the orbited object.
\<close>
theorem C7_rings:
  assumes "config_name cfg = Some saturnsRingsName"
  shows "\<exists>b. AstronomicalObject cfg (Some p) u = Some b \<and>
             distanceFromBodyWeAreOrbiting b = 0 \<and>
             orbitalPeriod b = orbitalPeriod p \<and> spinPeriod b = spinPeriod p \<and>
             (\<forall>calls b' pcalls p'.
                animateCalls calls b = Some b' \<and> animateCalls pcalls p = Some p' \<longrightarrow>
                distanceFromBodyWeAreOrbiting b' = 0 \<and>
                orbitalPeriod b' = orbitalPeriod p' \<and> spinPeriod b' = spinPeriod p')"
proof -
  have n: "str_or (config_name cfg) ''name not set'' = saturnsRingsName"
    using assms by (simp add: str_or_def saturnsRingsName_def)
  obtain b1 where 1: "setAttributes cfg (Some p) blank = Some b1"
    using n by (simp add: setAttributes_def prepareSpecialCases_def normalise_def setAxis_def
          Let_def Sun_not_rings Sun_not_rings [THEN not_sym])
  have n1: "name b1 = saturnsRingsName"
    using setAttributes_SomeD(1) [OF 1] n by simp
  obtain b3 where 3: "setRandomStartingOrbit u (Some p) (setOrigin (config_origin cfg) (Some p) b1) = Some b3"
    using n1 by (simp add: setRandomStartingOrbit_def setOrigin_fields Let_def)
  have b: "AstronomicalObject cfg (Some p) u = Some (initMatrix (Some p) b3)"
    by (simp add: AstronomicalObject_def 1 3)
  have nb: "name (initMatrix (Some p) b3) = saturnsRingsName"
    using AstronomicalObject_fields(1) [OF b] n by simp
  from AstronomicalObject_periods(3) [OF b nb]
  have f: "distanceFromBodyWeAreOrbiting (initMatrix (Some p) b3) = 0"
    "orbitalPeriod (initMatrix (Some p) b3) = orbitalPeriod p"
    "spinPeriod (initMatrix (Some p) b3) = spinPeriod p"
    by simp_all
  have "distanceFromBodyWeAreOrbiting b' = 0 \<and>
        orbitalPeriod b' = orbitalPeriod p' \<and> spinPeriod b' = spinPeriod p'"
    if "animateCalls calls (initMatrix (Some p) b3) = Some b'"
      and "animateCalls pcalls p = Some p'" for calls b' pcalls p'
    using animateCalls_static [OF that(1)] animateCalls_static [OF that(2)] f by simp
  with b f show ?thesis by blast
qed


theorem C7_rings_witness:
  "config_name saturnsRings_config = Some saturnsRingsName \<and>
   AstronomicalObject saturnsRings_config (Some saturn) 0 = Some saturnsRings \<and>
   distanceFromBodyWeAreOrbiting saturnsRings = 0 \<and>
   orbitalPeriod saturnsRings = orbitalPeriod saturn \<and>
   spinPeriod saturnsRings = spinPeriod saturn \<and>
   animateCalls [(Some saturn, 1000, 16)] saturnsRings =
     Some (animateBy (Some saturn) (2 * pi * 16 / (1000 * 10760.27))
             (2 * pi * 16 / (1000 * 0.44)) saturnsRings) \<and>
   animateCalls [(Some theSun, 1000, 16)] saturn =
     Some (animateBy (Some theSun) (2 * pi * 16 / (1000 * 10760.27))
             (2 * pi * 16 / (1000 * 0.44)) saturn) \<and>
   distanceFromBodyWeAreOrbiting
     (animateBy (Some saturn) (2 * pi * 16 / (1000 * 10760.27))
        (2 * pi * 16 / (1000 * 0.44)) saturnsRings) = 0 \<and>
   orbitalPeriod
     (animateBy (Some saturn) (2 * pi * 16 / (1000 * 10760.27))
        (2 * pi * 16 / (1000 * 0.44)) saturnsRings) =
   orbitalPeriod
     (animateBy (Some theSun) (2 * pi * 16 / (1000 * 10760.27))
        (2 * pi * 16 / (1000 * 0.44)) saturn)"
proof -
  have c: "config_name saturnsRings_config = Some saturnsRingsName"
    by (simp add: saturnsRings_config_def noConfig_def saturnsRingsName_def)
  from C7_rings [OF c, of saturn 0] obtain b where
    b: "AstronomicalObject saturnsRings_config (Some saturn) 0 = Some b"
    and f: "distanceFromBodyWeAreOrbiting b = 0" "orbitalPeriod b = orbitalPeriod saturn"
      "spinPeriod b = spinPeriod saturn"
    and later: "\<And>calls b' pcalls p'.
        animateCalls calls b = Some b' \<and> animateCalls pcalls saturn = Some p' \<Longrightarrow>
        distanceFromBodyWeAreOrbiting b' = 0 \<and>
        orbitalPeriod b' = orbitalPeriod p' \<and> spinPeriod b' = spinPeriod p'"
    by blast
  from b have eq: "b = saturnsRings" by (simp add: saturnsRings_built)
  from later [of "[(Some saturn, 1000, 16)]" _ "[(Some theSun, 1000, 16)]"]
    saturnsRings_one_call saturn_one_call eq
  have "distanceFromBodyWeAreOrbiting
     (animateBy (Some saturn) (2 * pi * 16 / (1000 * 10760.27))
        (2 * pi * 16 / (1000 * 0.44)) saturnsRings) = 0 \<and>
   orbitalPeriod
     (animateBy (Some saturn) (2 * pi * 16 / (1000 * 10760.27))
        (2 * pi * 16 / (1000 * 0.44)) saturnsRings) =
   orbitalPeriod
     (animateBy (Some theSun) (2 * pi * 16 / (1000 * 10760.27))
        (2 * pi * 16 / (1000 * 0.44)) saturn)"
    by simp
  with c f eq saturnsRings_built saturnsRings_one_call saturn_one_call show ?thesis
    by simp
qed

text \<open>
  C8, as the claim states it, fails for the rings of the solar system: their config
  gives no period, and the object built takes the periods of Saturn, 10760.27 and 0.44.
\<close>
theorem C8_rings_periods_counterexample:
  "config_orbitalPeriod saturnsRings_config = None \<and>
   config_spinPeriod saturnsRings_config = None \<and>
   AstronomicalObject saturnsRings_config (Some saturn) 0 = Some saturnsRings \<and>
   orbitalPeriod saturnsRings = 10760.27 \<and> orbitalPeriod saturnsRings \<noteq> 1 \<and>
   spinPeriod saturnsRings = 0.44 \<and> spinPeriod saturnsRings \<noteq> 1"
proof -
  have "config_orbitalPeriod saturnsRings_config = None"
    and "config_spinPeriod saturnsRings_config = None"
    by (simp_all add: saturnsRings_config_def noConfig_def)
  with saturnsRings_built example_periods(13,14) show ?thesis by simp
qed

text \<open>
  C8, amended. For every config whose object is not named Saturn's Rings, a period that
  is omitted or 0 becomes 1; the rings take both periods from the object they orbit.
  Hence every object built by the constructor, on orbited objects that were built by it,
  has non-zero periods in every state it reaches, and for every rate \<open>r\<close> other than 0 the
  divisor of the angle computation is not zero, so it returns a number.
\<close>
theorem C8_periods:
  assumes "reachable b" and "r \<noteq> 0"
  shows "orbitalPeriod b \<noteq> 0 \<and> spinPeriod b \<noteq> 0 \<and>
         r * orbitalPeriod b \<noteq> 0 \<and> r * spinPeriod b \<noteq> 0 \<and>
         calculatePortionOf (orbitalPeriod b) t r \<noteq> None \<and>
         calculatePortionOf (spinPeriod b) t r \<noteq> None \<and>
         (AstronomicalObject cfg orbited u = Some b0 \<and> name b0 \<noteq> saturnsRingsName \<longrightarrow>
            (config_orbitalPeriod cfg = None \<or> config_orbitalPeriod cfg = Some 0 \<longrightarrow>
               orbitalPeriod b0 = 1) \<and>
            (config_spinPeriod cfg = None \<or> config_spinPeriod cfg = Some 0 \<longrightarrow>
               spinPeriod b0 = 1)) \<and>
         (AstronomicalObject cfg orbited u = Some b0 \<and> name b0 = saturnsRingsName \<longrightarrow>
            (\<exists>p. orbited = Some p \<and> orbitalPeriod b0 = orbitalPeriod p \<and>
                 spinPeriod b0 = spinPeriod p))"
proof -
  from reachable_periods [OF assms(1)] assms(2)
  have 1: "orbitalPeriod b \<noteq> 0 \<and> spinPeriod b \<noteq> 0 \<and>
         r * orbitalPeriod b \<noteq> 0 \<and> r * spinPeriod b \<noteq> 0 \<and>
         calculatePortionOf (orbitalPeriod b) t r \<noteq> None \<and>
         calculatePortionOf (spinPeriod b) t r \<noteq> None"
    by (simp add: calculatePortionOf_def)
  have 2: "(config_orbitalPeriod cfg = None \<or> config_orbitalPeriod cfg = Some 0 \<longrightarrow>
               orbitalPeriod b0 = 1) \<and>
            (config_spinPeriod cfg = None \<or> config_spinPeriod cfg = Some 0 \<longrightarrow>
               spinPeriod b0 = 1)"
    if "AstronomicalObject cfg orbited u = Some b0" and "name b0 \<noteq> saturnsRingsName"
    using AstronomicalObject_periods(1,2) [OF that] by (auto simp: num_or_def)
  have 3: "\<exists>p. orbited = Some p \<and> orbitalPeriod b0 = orbitalPeriod p \<and>
                 spinPeriod b0 = spinPeriod p"
    if "AstronomicalObject cfg orbited u = Some b0" and "name b0 = saturnsRingsName"
    using AstronomicalObject_periods(3) [OF that] by blast
  from 1 2 3 show ?thesis by blast
qed

theorem C8_periods_witness:
  "reachable galaxy \<and> (1000::real) \<noteq> 0 \<and>
   AstronomicalObject galaxy_config None 0 = Some galaxy \<and>
   name galaxy \<noteq> saturnsRingsName \<and>
   config_orbitalPeriod galaxy_config = None \<and> config_spinPeriod galaxy_config = None \<and>
   orbitalPeriod galaxy = 1 \<and> spinPeriod galaxy = 1 \<and>
   calculatePortionOf (orbitalPeriod galaxy) 16 1000 \<noteq> None \<and>
   calculatePortionOf (spinPeriod galaxy) 16 1000 \<noteq> None \<and>
   reachable saturnsRings \<and>
   AstronomicalObject saturnsRings_config (Some saturn) 0 = Some saturnsRings \<and>
   name saturnsRings = saturnsRingsName \<and>
   orbitalPeriod saturnsRings = orbitalPeriod saturn \<and>
   spinPeriod saturnsRings = spinPeriod saturn \<and>
   orbitalPeriod saturnsRings \<noteq> 0 \<and> spinPeriod saturnsRings \<noteq> 0"
proof -
  have r: "reachable galaxy" using galaxy_built by (rule reachable.new_root)
  have n: "name galaxy \<noteq> saturnsRingsName"
    by (simp add: example_names saturnsRingsName_def)
  have c: "config_orbitalPeriod galaxy_config = None" "config_spinPeriod galaxy_config = None"
    by (simp_all add: galaxy_config_def noConfig_def)
  have "reachable theSun" using theSun_built by (rule reachable.new_root)
  then have "reachable saturn" using saturn_built by (rule reachable.new_orbiting)
  then have rr: "reachable saturnsRings" using saturnsRings_built by (rule reachable.new_orbiting)
  from C8_periods [OF r, of 1000 16 galaxy_config None 0 galaxy] r n c galaxy_built
  have g: "orbitalPeriod galaxy = 1 \<and> spinPeriod galaxy = 1 \<and>
      calculatePortionOf (orbitalPeriod galaxy) 16 1000 \<noteq> None \<and>
      calculatePortionOf (spinPeriod galaxy) 16 1000 \<noteq> None"
    by (simp add: calculatePortionOf_def)
  from C8_periods [OF rr, of 1000 16 saturnsRings_config "Some saturn" 0 saturnsRings]
    saturnsRings_built example_names(3)
  have s: "orbitalPeriod saturnsRings = orbitalPeriod saturn \<and>
      spinPeriod saturnsRings = spinPeriod saturn \<and>
      orbitalPeriod saturnsRings \<noteq> 0 \<and> spinPeriod saturnsRings \<noteq> 0"
    by simp
  have k: "(1000::real) \<noteq> 0" by simp
  from g s r rr n c k galaxy_built saturnsRings_built example_names(3) show ?thesis by blast
qed

text \<open>
  C9, as the claim states it, fails on a call with no elapsed time, which is what the
  first frame of the driver and the first frame after a pause pass: the sun, which orbits
  nothing, gets \<open>lastOrbitAngle = 0\<close>, not a non-zero value.
\<close>
theorem C9_zero_elapsed_counterexample:
  "orbits theSun = None \<and>
   animate None 1000 0 theSun = Some (animateBy None 0 0 theSun) \<and>
   lastOrbitAngle (animateBy None 0 0 theSun) = 0"
  using animate_eq [of 1000 theSun None 0]
  by (simp add: example_periods example_roots animateBy_angles)

text \<open>
  C9, amended. For every object with no orbited object, each call of \<open>animate\<close> (with
  non-zero divisors) returns, sets \<open>lastOrbitAngle\<close> to \<open>2 * pi * t / (r * orbitalPeriod)\<close>, which
  is not zero when \<open>t\<close> is not zero, and adds that amount to \<open>cumulativeOrbitAngle\<close>. The
  world position of its model-view matrix stays where it was: the matrix is rotated by
  the spin amount about the world Y axis when the object spins, and is unchanged when it
  does not.
\<close>
theorem C9_root_body:
  assumes "r * orbitalPeriod b \<noteq> 0" and "r * spinPeriod b \<noteq> 0"
  shows "\<exists>b'. animate None r t b = Some b' \<and>
              lastOrbitAngle b' = 2 * pi * t / (r * orbitalPeriod b) \<and>
              (t \<noteq> 0 \<longrightarrow> lastOrbitAngle b' \<noteq> 0) \<and>
              cumulativeOrbitAngle b' =
                cumulativeOrbitAngle b + 2 * pi * t / (r * orbitalPeriod b) \<and>
              position (modelViewMatrix b') = position (modelViewMatrix b) \<and>
              (spins b \<longrightarrow>
                 modelViewMatrix b' =
                   mat4_rotate (modelViewMatrix b) (2 * pi * t / (r * spinPeriod b)) worldY) \<and>
              (\<not> spins b \<longrightarrow> modelViewMatrix b' = modelViewMatrix b)"
  using assms
  by (simp add: animate_eq animateBy_angles animateBy_root_matrix position_rotate)

theorem C9_root_body_witness:
  "(1000::real) * orbitalPeriod theSun \<noteq> 0 \<and> (1000::real) * spinPeriod theSun \<noteq> 0 \<and>
   (16::real) \<noteq> 0 \<and> spins theSun \<and>
   (\<exists>b'. animate None 1000 16 theSun = Some b' \<and>
         lastOrbitAngle b' = 2 * pi * 16 / 1000 \<and> lastOrbitAngle b' \<noteq> 0 \<and>
         cumulativeOrbitAngle b' = cumulativeOrbitAngle theSun + 2 * pi * 16 / 1000 \<and>
         position (modelViewMatrix b') = position (modelViewMatrix theSun) \<and>
         modelViewMatrix b' =
           mat4_rotate (modelViewMatrix theSun) (2 * pi * 16 / (1000 * 29)) worldY) \<and>
   (1000::real) * orbitalPeriod galaxy \<noteq> 0 \<and> (1000::real) * spinPeriod galaxy \<noteq> 0 \<and>
   \<not> spins galaxy \<and>
   (\<exists>b'. animate None 1000 16 galaxy = Some b' \<and>
         lastOrbitAngle b' = 2 * pi * 16 / 1000 \<and>
         modelViewMatrix b' = modelViewMatrix galaxy)"
  using C9_root_body [of 1000 theSun 16] C9_root_body [of 1000 galaxy 16]
  by (auto simp add: example_periods example_roots)

text \<open>
  C10. For every axis input of \<open>d\<close> degrees, \<open>setAxis\<close> stores the vector
  \<open>(d / 90, 1 - d / 90, 0)\<close> in \<open>axisArray\<close>; the constructed object holds it, and no call
  of \<open>animate\<close> changes it, so the stored vector is never normalised. For \<open>d > 90\<close> its first
  component exceeds 1, its second is negative and its length is not 1.
\<close>
theorem C10_axis_vector:
  assumes "AstronomicalObject cfg orbited u = Some b"
    and "config_axis cfg = Some d"
    and "animateCalls calls b = Some b'"
  shows "axisArray (setAxis (Some d) b0) = (d / 90, 1 - d / 90, 0) \<and>
         axisArray b = (d / 90, 1 - d / 90, 0) \<and>
         axisArray b' = (d / 90, 1 - d / 90, 0) \<and>
         (90 < d \<longrightarrow> 1 < d / 90 \<and> 1 - d / 90 < 0 \<and>
            sqrt ((d / 90) * (d / 90) + (1 - d / 90) * (1 - d / 90) + 0 * 0) \<noteq> 1)"
proof -
  have 1: "axisArray (setAxis (Some d) b0) = (d / 90, 1 - d / 90, 0)"
    by (simp add: setAxis_def num_or_def degreesToRadians_def Let_def)
  have 2: "axisArray b = (d / 90, 1 - d / 90, 0)"
    using AstronomicalObject_fields(4) [OF assms(1)] assms(2) by (simp add: num_or_def)
  have 3: "axisArray b' = axisArray b"
    using animateCalls_static [OF assms(3)] by simp
  have 4: "sqrt ((d / 90) * (d / 90) + (1 - d / 90) * (1 - d / 90) + 0 * 0) \<noteq> 1" if "90 < d"
  proof -
    define x where "x = d / 90"
    define y where "y = 1 - d / 90"
    from that have "1 < x" by (simp add: x_def)
    then have "1 * 1 < x * x"
      by (intro mult_strict_mono) simp_all
    moreover have "0 \<le> y * y" by simp
    ultimately have "1 < x * x + y * y + 0 * 0" by linarith
    then have "sqrt 1 < sqrt (x * x + y * y + 0 * 0)"
      by (rule real_sqrt_less_mono)
    then show ?thesis by (simp add: x_def y_def)
  qed
  from 1 2 3 4 show ?thesis by simp
qed

theorem C10_axis_vector_witness:
  "AstronomicalObject venus_config (Some theSun) (1 / 2) = Some venus \<and>
   config_axis venus_config = Some 177.36 \<and>
   animateCalls [(Some theSun, 1000, 16)] venus =
     Some (animateBy (Some theSun) (2 * pi * 16 / (1000 * 226.46))
             (2 * pi * 16 / (1000 * 243)) venus) \<and>
   (90::real) < 177.36 \<and>
   axisArray venus = (177.36 / 90, 1 - 177.36 / 90, 0) \<and>
   axisArray (animateBy (Some theSun) (2 * pi * 16 / (1000 * 226.46))
                (2 * pi * 16 / (1000 * 243)) venus) = (177.36 / 90, 1 - 177.36 / 90, 0) \<and>
   sqrt ((177.36 / 90) * (177.36 / 90) + (1 - 177.36 / 90) * (1 - 177.36 / 90) + 0 * 0) \<noteq> 1"
proof -
  have c: "config_axis venus_config = Some 177.36"
    by (simp add: venus_config_def noConfig_def)
  from C10_axis_vector [OF venus_built c venus_one_call] venus_built c venus_one_call
  show ?thesis by simp
qed

end
